theory Spec2Isabelle
  imports Complex_Main "HOL-Library.Monad_Syntax"
begin

section \<open>Values of type float64\<close>

text \<open>
  The histogauge compares \<^verbatim>\<open>float64\<close> values with \<^verbatim>\<open>==\<close>, \<^verbatim>\<open><=\<close>, \<^verbatim>\<open><\<close> and
  \<^verbatim>\<open>>\<close>, and the exporter divides and adds them. A value is NaN, an infinity or a
  finite number. A finite number is kept as the rational it denotes: results are not
  rounded to 53 bits and do not overflow, and there is one zero (the only zero the program
  divides by is the \<^verbatim>\<open>+0\<close> that \<^verbatim>\<open>Duration.Seconds\<close> returns). Every comparison with
  NaN is false, as in Go.
\<close>

datatype float64 = NaN | NegInf | Fin rat | PosInf

fun fle :: "float64 \<Rightarrow> float64 \<Rightarrow> bool" where
  "fle NaN y = False"
| "fle x NaN = False"
| "fle NegInf y = True"
| "fle x PosInf = True"
| "fle (Fin a) (Fin b) = (a \<le> b)"
| "fle (Fin a) NegInf = False"
| "fle PosInf y = False"

fun flt :: "float64 \<Rightarrow> float64 \<Rightarrow> bool" where
  "flt NaN y = False"
| "flt x NaN = False"
| "flt x NegInf = False"
| "flt PosInf y = False"
| "flt (Fin a) (Fin b) = (a < b)"
| "flt NegInf y = True"
| "flt (Fin a) PosInf = True"

definition fgt :: "float64 \<Rightarrow> float64 \<Rightarrow> bool" where
  "fgt x y = flt y x"

definition feq :: "float64 \<Rightarrow> float64 \<Rightarrow> bool" where
  "feq x y = (x \<noteq> NaN \<and> x = y)"

text \<open>\<^verbatim>\<open>x + y\<close> and \<^verbatim>\<open>x / y\<close> on float64, with the special values of IEEE 754.\<close>

fun fadd :: "float64 \<Rightarrow> float64 \<Rightarrow> float64" where
  "fadd NaN y = NaN"
| "fadd x NaN = NaN"
| "fadd PosInf NegInf = NaN"
| "fadd NegInf PosInf = NaN"
| "fadd PosInf y = PosInf"
| "fadd NegInf y = NegInf"
| "fadd (Fin a) PosInf = PosInf"
| "fadd (Fin a) NegInf = NegInf"
| "fadd (Fin a) (Fin b) = Fin (a + b)"

fun fdiv :: "float64 \<Rightarrow> float64 \<Rightarrow> float64" where
  "fdiv NaN y = NaN"
| "fdiv x NaN = NaN"
| "fdiv (Fin a) (Fin b) =
     (if b = 0 then (if a = 0 then NaN else if 0 < a then PosInf else NegInf)
      else Fin (a / b))"
| "fdiv (Fin a) y = Fin 0"
| "fdiv PosInf (Fin b) = (if 0 \<le> b then PosInf else NegInf)"
| "fdiv NegInf (Fin b) = (if 0 \<le> b then NegInf else PosInf)"
| "fdiv x y = NaN"

text \<open>\<^verbatim>\<open>math.Min\<close> and \<^verbatim>\<open>math.Max\<close>, used to state the interval a replacement crosses.\<close>

definition fmin :: "float64 \<Rightarrow> float64 \<Rightarrow> float64" where
  "fmin x y = (if x = NaN \<or> y = NaN then NaN else if fle x y then x else y)"

definition fmax :: "float64 \<Rightarrow> float64 \<Rightarrow> float64" where
  "fmax x y = (if x = NaN \<or> y = NaN then NaN else if fle x y then y else x)"

section \<open>The metric vectors of the client library\<close>

text \<open>
  \<^verbatim>\<open>prometheus.Labels\<close> is \<^verbatim>\<open>map[string]string\<close>. A \<^verbatim>\<open>GaugeVec\<close> holds one gauge per
  label set; \<^verbatim>\<open>With(labels)\<close> returns the gauge of that label set and creates it with
  value 0 when it does not exist yet. A series that was never created is absent from the
  map (\<open>None\<close>). The library panics in \<^verbatim>\<open>With\<close> when the label names are not the declared
  ones; the label sets here are the declared ones. The library stores a gauge as a float64
  and moves it by exactly one; the populations are counted as integers.
\<close>

type_synonym Labels = "string \<rightharpoonup> string"

type_synonym GaugeVec = "Labels \<rightharpoonup> int"

definition gval :: "GaugeVec \<Rightarrow> Labels \<Rightarrow> int" where
  "gval g l = (case g l of None \<Rightarrow> 0 | Some n \<Rightarrow> n)"

definition With :: "GaugeVec \<Rightarrow> Labels \<Rightarrow> GaugeVec" where
  "With g l = (case g l of None \<Rightarrow> g(l \<mapsto> 0) | Some n \<Rightarrow> g)"

definition Inc :: "GaugeVec \<Rightarrow> Labels \<Rightarrow> GaugeVec" where
  "Inc g l = g(l \<mapsto> gval g l + 1)"

definition Dec :: "GaugeVec \<Rightarrow> Labels \<Rightarrow> GaugeVec" where
  "Dec g l = g(l \<mapsto> gval g l - 1)"

section \<open>histogauge.go\<close>

text \<open>
  \<^verbatim>\<open>bucketName\<close> is \<^verbatim>\<open>fmt.Sprintf("%g", v)\<close>. The formatter belongs to the standard
  library and is a parameter \<open>fmt_g\<close> of the model.
\<close>

record histogauge =
  gaugeVec :: GaugeVec
  buckets :: "float64 list"

definition NewHistogauge :: "float64 list \<Rightarrow> histogauge" where
  "NewHistogauge bs = \<lparr>gaugeVec = Map.empty, buckets = bs\<rparr>"

definition bucketName :: "(float64 \<Rightarrow> string) \<Rightarrow> float64 \<Rightarrow> string" where
  "bucketName fmt_g v = fmt_g v"

text \<open>The assignment \<^verbatim>\<open>newLabels["le"] = name\<close>.\<close>

definition setLe :: "Labels \<Rightarrow> string \<Rightarrow> Labels" where
  "setLe newLabels name = newLabels(''le'' \<mapsto> name)"

text \<open>
  The loops over \<^verbatim>\<open>h.buckets\<close>. \<^verbatim>\<open>newLabels\<close> is the copy of \<^verbatim>\<open>labels\<close>; its entry
  \<^verbatim>\<open>"le"\<close> is overwritten in every iteration, so each iteration starts from the copy.
\<close>

fun Add_loop :: "(float64 \<Rightarrow> string) \<Rightarrow> Labels \<Rightarrow> float64 \<Rightarrow> float64 list \<Rightarrow> GaugeVec \<Rightarrow> GaugeVec" where
  "Add_loop fmt_g newLabels v [] g = g"
| "Add_loop fmt_g newLabels v (bucket # rest) g =
     (let key = setLe newLabels (bucketName fmt_g bucket);
          g1 = With g key
      in Add_loop fmt_g newLabels v rest (if fle v bucket then Inc g1 key else g1))"

definition Add :: "(float64 \<Rightarrow> string) \<Rightarrow> histogauge \<Rightarrow> Labels \<Rightarrow> float64 \<Rightarrow> histogauge" where
  "Add fmt_g h labels v =
     (let newLabels = labels;
          g = Add_loop fmt_g newLabels v (buckets h) (gaugeVec h)
      in h\<lparr>gaugeVec := Inc (With g (setLe newLabels ''+Inf'')) (setLe newLabels ''+Inf'')\<rparr>)"

fun Remove_loop :: "(float64 \<Rightarrow> string) \<Rightarrow> Labels \<Rightarrow> float64 \<Rightarrow> float64 list \<Rightarrow> GaugeVec \<Rightarrow> GaugeVec" where
  "Remove_loop fmt_g newLabels v [] g = g"
| "Remove_loop fmt_g newLabels v (bucket # rest) g =
     (let key = setLe newLabels (bucketName fmt_g bucket);
          g1 = With g key
      in Remove_loop fmt_g newLabels v rest (if fle v bucket then Dec g1 key else g1))"

definition Remove :: "(float64 \<Rightarrow> string) \<Rightarrow> histogauge \<Rightarrow> Labels \<Rightarrow> float64 \<Rightarrow> histogauge" where
  "Remove fmt_g h labels v =
     (let newLabels = labels;
          g = Remove_loop fmt_g newLabels v (buckets h) (gaugeVec h)
      in h\<lparr>gaugeVec := Dec (With g (setLe newLabels ''+Inf'')) (setLe newLabels ''+Inf'')\<rparr>)"

fun Replace_loop :: "(float64 \<Rightarrow> string) \<Rightarrow> Labels \<Rightarrow> float64 \<Rightarrow> float64 \<Rightarrow> float64 list \<Rightarrow> GaugeVec \<Rightarrow> GaugeVec" where
  "Replace_loop fmt_g newLabels v o' [] g = g"
| "Replace_loop fmt_g newLabels v o' (bucket # rest) g =
     (let key = setLe newLabels (bucketName fmt_g bucket)
      in Replace_loop fmt_g newLabels v o' rest
           (if fgt v o' then
              (if fle o' bucket \<and> flt bucket v then Dec (With g key) key else g)
            else
              (if fle v bucket \<and> flt bucket o' then Inc (With g key) key else g)))"

definition Replace :: "(float64 \<Rightarrow> string) \<Rightarrow> histogauge \<Rightarrow> Labels \<Rightarrow> float64 \<Rightarrow> float64 \<Rightarrow> histogauge" where
  "Replace fmt_g h labels v o' =
     (if feq v o' then h
      else let newLabels = labels
           in h\<lparr>gaugeVec := Replace_loop fmt_g newLabels v o' (buckets h) (gaugeVec h)\<rparr>)"

text \<open>
  Read off the loop body of \<^verbatim>\<open>Replace\<close>: the condition under which the series of
  threshold \<open>b\<close> is changed. \<open>in_range\<close> is the same condition in the words
  \<^verbatim>\<open>lo <= b < hi\<close> with \<^verbatim>\<open>lo = min(old, new)\<close> and \<^verbatim>\<open>hi = max(old, new)\<close>.
\<close>

definition moved :: "float64 \<Rightarrow> float64 \<Rightarrow> float64 \<Rightarrow> bool" where
  "moved v o' b = (if fgt v o' then fle o' b \<and> flt b v else fle v b \<and> flt b o')"

definition in_range :: "float64 \<Rightarrow> float64 \<Rightarrow> float64 \<Rightarrow> bool" where
  "in_range o' v b = (fle (fmin o' v) b \<and> flt b (fmax o' v))"

subsection \<open>Sequences of calls\<close>

text \<open>A call of one of the three methods of the interface \<^verbatim>\<open>Histogauge\<close>, and a run of calls.\<close>

datatype gauge_op =
    OpAdd Labels float64
  | OpRemove Labels float64
  | OpReplace Labels float64 float64

fun apply_op :: "(float64 \<Rightarrow> string) \<Rightarrow> histogauge \<Rightarrow> gauge_op \<Rightarrow> histogauge" where
  "apply_op fmt_g h (OpAdd labels v) = Add fmt_g h labels v"
| "apply_op fmt_g h (OpRemove labels v) = Remove fmt_g h labels v"
| "apply_op fmt_g h (OpReplace labels v o') = Replace fmt_g h labels v o'"

fun run_ops :: "(float64 \<Rightarrow> string) \<Rightarrow> histogauge \<Rightarrow> gauge_op list \<Rightarrow> histogauge" where
  "run_ops fmt_g h [] = h"
| "run_ops fmt_g h (c # cs) = run_ops fmt_g (apply_op fmt_g h c) cs"

text \<open>
  The caller's contract, in the words of the specification: \<open>T labels\<close> lists the values
  that were added for \<open>labels\<close> and not removed since (a replacement exchanges the old
  value for the new one). A call is permitted when the value it removes, or the old value
  it replaces, is one of them.
\<close>

fun permitted :: "(Labels \<Rightarrow> float64 list) \<Rightarrow> gauge_op \<Rightarrow> bool" where
  "permitted T (OpAdd labels v) = True"
| "permitted T (OpRemove labels v) = (v \<in> set (T labels))"
| "permitted T (OpReplace labels v o') = (o' \<in> set (T labels))"

fun track :: "(Labels \<Rightarrow> float64 list) \<Rightarrow> gauge_op \<Rightarrow> (Labels \<Rightarrow> float64 list)" where
  "track T (OpAdd labels v) = T(labels := v # T labels)"
| "track T (OpRemove labels v) = T(labels := remove1 v (T labels))"
| "track T (OpReplace labels v o') = T(labels := v # remove1 o' (T labels))"

fun follows_contract :: "(Labels \<Rightarrow> float64 list) \<Rightarrow> gauge_op list \<Rightarrow> bool" where
  "follows_contract T [] = True"
| "follows_contract T (c # cs) = (permitted T c \<and> follows_contract (track T c) cs)"

fun tracked :: "(Labels \<Rightarrow> float64 list) \<Rightarrow> gauge_op list \<Rightarrow> (Labels \<Rightarrow> float64 list)" where
  "tracked T [] = T"
| "tracked T (c # cs) = tracked (track T c) cs"

fun op_labels :: "gauge_op \<Rightarrow> Labels" where
  "op_labels (OpAdd labels v) = labels"
| "op_labels (OpRemove labels v) = labels"
| "op_labels (OpReplace labels v o') = labels"

fun op_values :: "gauge_op \<Rightarrow> float64 list" where
  "op_values (OpAdd labels v) = [v]"
| "op_values (OpRemove labels v) = [v]"
| "op_values (OpReplace labels v o') = [v, o']"

text \<open>
  A run is well formed when no value is NaN and no label set uses the name \<^verbatim>\<open>le\<close>,
  which \<^verbatim>\<open>NewHistogauge\<close> reserves for the threshold.
\<close>

definition well_formed_op :: "gauge_op \<Rightarrow> bool" where
  "well_formed_op c = (NaN \<notin> set (op_values c) \<and> op_labels c ''le'' = None)"

text \<open>
  The thresholds are well named when \<^verbatim>\<open>bucketName\<close> gives each its own name, none of
  them the name \<^verbatim>\<open>+Inf\<close> of the overflow series.
\<close>

definition well_named :: "(float64 \<Rightarrow> string) \<Rightarrow> float64 list \<Rightarrow> bool" where
  "well_named fmt_g bs =
     (distinct (map (bucketName fmt_g) bs) \<and> (\<forall>b\<in>set bs. bucketName fmt_g b \<noteq> ''+Inf''))"

text \<open>
  The reading of the populations that the specification gives: for every label set, the
  series of threshold \<open>b\<close> holds the number of current values that are at most \<open>b\<close>, and
  the overflow series holds the number of current values.
\<close>

definition counts_agree :: "(float64 \<Rightarrow> string) \<Rightarrow> histogauge \<Rightarrow> (Labels \<Rightarrow> float64 list) \<Rightarrow> bool" where
  "counts_agree fmt_g h T =
     (\<forall>labels. labels ''le'' = None \<longrightarrow>
        (\<forall>b\<in>set (buckets h).
           gval (gaugeVec h) (setLe labels (bucketName fmt_g b)) =
             int (length (filter (\<lambda>v. fle v b) (T labels))))
        \<and> gval (gaugeVec h) (setLe labels ''+Inf'') = int (length (T labels)))"

section \<open>The exporter\<close>

subsection \<open>Thresholds\<close>

text \<open>
  \<^verbatim>\<open>prometheus.LinearBuckets(50, 50, 8)\<close> and \<^verbatim>\<open>prometheus.ExponentialBuckets(16384, 2, 8)\<close>,
  as the comments of the source list them.
\<close>

definition packetRateBuckets :: "float64 list" where
  "packetRateBuckets = map Fin [50, 100, 150, 200, 250, 300, 350, 400]"

definition byteRateBuckets :: "float64 list" where
  "byteRateBuckets = map Fin [16384, 32768, 65536, 131072, 262144, 524288, 1048576, 2097152]"

text \<open>
  What \<^verbatim>\<open>%g\<close> prints for these sixteen thresholds; the examples use it as the formatter.
  On every other value it gives the empty string, which no example reads.
\<close>

definition fmt_g_thresholds :: "float64 \<Rightarrow> string" where
  "fmt_g_thresholds v =
     (case map_of
        [(Fin 50, ''50''), (Fin 100, ''100''), (Fin 150, ''150''), (Fin 200, ''200''),
         (Fin 250, ''250''), (Fin 300, ''300''), (Fin 350, ''350''), (Fin 400, ''400''),
         (Fin 16384, ''16384''), (Fin 32768, ''32768''), (Fin 65536, ''65536''),
         (Fin 131072, ''131072''), (Fin 262144, ''262144''), (Fin 524288, ''524288''),
         (Fin 1048576, ''1.048576e+06''), (Fin 2097152, ''2.097152e+06'')] v
      of None \<Rightarrow> [] | Some s \<Rightarrow> s)"

subsection \<open>Counters, time, messages\<close>

text \<open>
  A \<^verbatim>\<open>CounterVec\<close> holds one float64 counter per label set, created at 0 by \<^verbatim>\<open>With\<close>.
  \<^verbatim>\<open>Counter.Add\<close> panics on a negative argument; the exporter passes it parsed digit
  strings only, which are never negative (lemma \<open>ParseFloat_nonneg\<close>).
\<close>

type_synonym CounterVec = "Labels \<rightharpoonup> float64"

definition cval :: "CounterVec \<Rightarrow> Labels \<Rightarrow> float64" where
  "cval c l = (case c l of None \<Rightarrow> Fin 0 | Some x \<Rightarrow> x)"

definition CounterAdd :: "CounterVec \<Rightarrow> Labels \<Rightarrow> float64 \<Rightarrow> CounterVec" where
  "CounterAdd c l v = c(l \<mapsto> fadd (cval c l) v)"

text \<open>
  A \<^verbatim>\<open>time.Time\<close> taken by \<^verbatim>\<open>time.Now()\<close> is its monotonic reading in nanoseconds.
  \<^verbatim>\<open>t.Sub(u)\<close> is a \<^verbatim>\<open>Duration\<close>, an int64 of nanoseconds that saturates, and
  \<^verbatim>\<open>d.Seconds()\<close> is \<^verbatim>\<open>float64(d / Second) + float64(d % Second) / 1e9\<close> with Go's
  truncating division.
\<close>

type_synonym Time = int

type_synonym Duration = int

definition Sub :: "Time \<Rightarrow> Time \<Rightarrow> Duration" where
  "Sub t u =
     (let d = t - u
      in if d < - (2 ^ 63) then - (2 ^ 63) else if 2 ^ 63 - 1 < d then 2 ^ 63 - 1 else d)"

definition quo :: "int \<Rightarrow> int \<Rightarrow> int" where
  "quo a b = sgn a * sgn b * (\<bar>a\<bar> div \<bar>b\<bar>)"

definition rem :: "int \<Rightarrow> int \<Rightarrow> int" where
  "rem a b = sgn a * (\<bar>a\<bar> mod \<bar>b\<bar>)"

definition Second :: Duration where
  "Second = 1000000000"

definition Seconds :: "Duration \<Rightarrow> float64" where
  "Seconds d =
     (let sec = quo d Second; nsec = rem d Second
      in fadd (Fin (of_int sec)) (fdiv (Fin (of_int nsec)) (Fin 1000000000)))"

record Message =
  Channel :: string
  Payload :: string

record MessageMetadata =
  realm :: string
  allocationName :: string
  messageType :: string

record TrafficMetric =
  rcvp :: float64
  rcvb :: float64
  sentp :: float64
  sentb :: float64

record Allocation =
  previousRates :: "TrafficMetric option"
  lastMetricTimestamp :: Time

subsection \<open>The two regular expressions\<close>

text \<open>
  \<^verbatim>\<open>FindStringSubmatch\<close> returns the leftmost match. In both patterns every repetition
  is followed by a character it cannot match (or by the end of the pattern), so at a given
  start the greedy match is the only candidate: \<open>many1 P\<close> takes the longest non-empty run
  of characters satisfying \<open>P\<close>, \<open>literal\<close> takes a fixed string. The functions return the
  groups the program reads; \<^verbatim>\<open>result[0]\<close> is never read.
\<close>

fun literal :: "string \<Rightarrow> string \<Rightarrow> string option" where
  "literal [] s = Some s"
| "literal (p # ps) [] = None"
| "literal (p # ps) (c # cs) = (if p = c then literal ps cs else None)"

definition many1 :: "(char \<Rightarrow> bool) \<Rightarrow> string \<Rightarrow> (string \<times> string) option" where
  "many1 P s = (if takeWhile P s = [] then None else Some (takeWhile P s, dropWhile P s))"

fun leftmost :: "(string \<Rightarrow> 'a option) \<Rightarrow> string \<Rightarrow> 'a option" where
  "leftmost m [] = m []"
| "leftmost m (c # cs) = (case m (c # cs) of Some r \<Rightarrow> Some r | None \<Rightarrow> leftmost m cs)"

definition is_digit :: "char \<Rightarrow> bool" where
  "is_digit c = (c \<in> set ''0123456789'')"

definition not_slash :: "char \<Rightarrow> bool" where
  "not_slash c = (c \<noteq> CHR ''/'')"

definition not_newline :: "char \<Rightarrow> bool" where
  "not_newline c = (c \<noteq> CHR 0x0A)"

text \<open>\<^verbatim>\<open>rcvp=([0-9]+), rcvb=([0-9]+), sentp=([0-9]+), sentb=([0-9]+)\<close>\<close>

definition metricRegexp_at :: "string \<Rightarrow> (string \<times> string \<times> string \<times> string) option" where
  "metricRegexp_at s = do {
     s1 \<leftarrow> literal ''rcvp='' s;
     (g1, s2) \<leftarrow> many1 is_digit s1;
     s3 \<leftarrow> literal '', rcvb='' s2;
     (g2, s4) \<leftarrow> many1 is_digit s3;
     s5 \<leftarrow> literal '', sentp='' s4;
     (g3, s6) \<leftarrow> many1 is_digit s5;
     s7 \<leftarrow> literal '', sentb='' s6;
     (g4, s8) \<leftarrow> many1 is_digit s7;
     Some (g1, g2, g3, g4)
   }"

definition metricRegexp :: "string \<Rightarrow> (string \<times> string \<times> string \<times> string) option" where
  "metricRegexp = leftmost metricRegexp_at"

text \<open>\<^verbatim>\<open>(turn/realm/([^/]+)/user/[^/]+/allocation/[^/]+)/(.+)\<close>\<close>

definition keyRegexp_at :: "string \<Rightarrow> (string \<times> string \<times> string) option" where
  "keyRegexp_at s = do {
     s1 \<leftarrow> literal ''turn/realm/'' s;
     (r, s2) \<leftarrow> many1 not_slash s1;
     s3 \<leftarrow> literal ''/user/'' s2;
     (u, s4) \<leftarrow> many1 not_slash s3;
     s5 \<leftarrow> literal ''/allocation/'' s4;
     (a, s6) \<leftarrow> many1 not_slash s5;
     s7 \<leftarrow> literal ''/'' s6;
     (t, s8) \<leftarrow> many1 not_newline s7;
     Some (''turn/realm/'' @ r @ ''/user/'' @ u @ ''/allocation/'' @ a, r, t)
   }"

definition keyRegexp :: "string \<Rightarrow> (string \<times> string \<times> string) option" where
  "keyRegexp = leftmost keyRegexp_at"

text \<open>
  \<^verbatim>\<open>strconv.ParseFloat\<close> on a string of decimal digits, the only strings the program
  gives it: the number the digits denote. The error result is discarded by the program.
\<close>

definition ParseFloat :: "string \<Rightarrow> float64" where
  "ParseFloat s = Fin (of_nat (foldl (\<lambda>n c. 10 * n + (of_char c - 48)) 0 s))"

datatype error = Unexpected_key_name | Unexpected_traffic_metric

definition parseKeyName :: "string \<Rightarrow> error + MessageMetadata" where
  "parseKeyName key =
     (case keyRegexp key of
        None \<Rightarrow> Inl Unexpected_key_name
      | Some (result1, result2, result3) \<Rightarrow>
          Inr \<lparr>realm = result2, allocationName = result1, messageType = result3\<rparr>)"

definition parseTrafficMetric :: "string \<Rightarrow> error + TrafficMetric" where
  "parseTrafficMetric data =
     (case metricRegexp data of
        None \<Rightarrow> Inl Unexpected_traffic_metric
      | Some (result1, result2, result3, result4) \<Rightarrow>
          Inr \<lparr>rcvp = ParseFloat result1, rcvb = ParseFloat result2,
               sentp = ParseFloat result3, sentb = ParseFloat result4\<rparr>)"

definition HasPrefix :: "string \<Rightarrow> string \<Rightarrow> bool" where
  "HasPrefix s p = (length p \<le> length s \<and> take (length p) s = p)"

subsection \<open>The state of the program\<close>

text \<open>
  The package variables that \<^verbatim>\<open>watchTraffic\<close> reads and writes, and what it prints.
  \<open>calls\<close> is not a variable of the program: it logs every method call on one of the four
  histogauges, in order, so that a theorem can say which calls an event issues.
\<close>

datatype rate_gauge = ReceivedPacketRate | ReceivedByteRate | SentPacketRate | SentByteRate

record exporter =
  allocationGauge :: GaugeVec
  receivedPackets :: CounterVec
  receivedBytes :: CounterVec
  sentPackets :: CounterVec
  sentBytes :: CounterVec
  receivedPacketRateHistogauge :: histogauge
  receivedByteRateHistogauge :: histogauge
  sentPacketRateHistogauge :: histogauge
  sentByteRateHistogauge :: histogauge
  allocations :: "string \<rightharpoonup> Allocation"
  stdout :: "string list"
  calls :: "(rate_gauge \<times> gauge_op) list"

text \<open>The package variables as their initialisers leave them.\<close>

definition start :: exporter where
  "start =
     \<lparr>allocationGauge = Map.empty,
      receivedPackets = Map.empty, receivedBytes = Map.empty,
      sentPackets = Map.empty, sentBytes = Map.empty,
      receivedPacketRateHistogauge = NewHistogauge packetRateBuckets,
      receivedByteRateHistogauge = NewHistogauge byteRateBuckets,
      sentPacketRateHistogauge = NewHistogauge packetRateBuckets,
      sentByteRateHistogauge = NewHistogauge byteRateBuckets,
      allocations = Map.empty, stdout = [], calls = []\<rparr>"

text \<open>A method call on one of the four histogauges.\<close>

fun call :: "(float64 \<Rightarrow> string) \<Rightarrow> rate_gauge \<Rightarrow> gauge_op \<Rightarrow> exporter \<Rightarrow> exporter" where
  "call fmt_g ReceivedPacketRate c st =
     st\<lparr>receivedPacketRateHistogauge := apply_op fmt_g (receivedPacketRateHistogauge st) c,
        calls := calls st @ [(ReceivedPacketRate, c)]\<rparr>"
| "call fmt_g ReceivedByteRate c st =
     st\<lparr>receivedByteRateHistogauge := apply_op fmt_g (receivedByteRateHistogauge st) c,
        calls := calls st @ [(ReceivedByteRate, c)]\<rparr>"
| "call fmt_g SentPacketRate c st =
     st\<lparr>sentPacketRateHistogauge := apply_op fmt_g (sentPacketRateHistogauge st) c,
        calls := calls st @ [(SentPacketRate, c)]\<rparr>"
| "call fmt_g SentByteRate c st =
     st\<lparr>sentByteRateHistogauge := apply_op fmt_g (sentByteRateHistogauge st) c,
        calls := calls st @ [(SentByteRate, c)]\<rparr>"

subsection \<open>watchTraffic\<close>

text \<open>
  One iteration of the loop, for the message \<open>msg\<close> received from the channel.
  \<open>traffic\<close> is the body of the branch for a parsed traffic message and \<open>deleted\<close>
  that of the branch for the payload \<^verbatim>\<open>deleted\<close>; \<open>handleMessage\<close> is the whole iteration. The
  iteration calls \<^verbatim>\<open>time.Now()\<close> at most twice; \<open>now\<close> is the reading of the first call
  and \<open>later\<close> that of the second. \<^verbatim>\<open>fmt.Println\<close> does not interpret \<^verbatim>\<open>%s\<close>: it prints
  its operands with a space between them.
\<close>

definition traffic :: "(float64 \<Rightarrow> string) \<Rightarrow> Time \<Rightarrow> Time \<Rightarrow> MessageMetadata \<Rightarrow> Labels \<Rightarrow>
    TrafficMetric \<Rightarrow> exporter \<Rightarrow> exporter" where
  "traffic fmt_g now later metadata labels trafficMetric st =
     (let st1 = st\<lparr>receivedPackets := CounterAdd (receivedPackets st) labels (rcvp trafficMetric),
                   receivedBytes := CounterAdd (receivedBytes st) labels (rcvb trafficMetric),
                   sentPackets := CounterAdd (sentPackets st) labels (sentp trafficMetric),
                   sentBytes := CounterAdd (sentBytes st) labels (sentb trafficMetric)\<rparr>
      in case allocations st1 (allocationName metadata) of
           Some allocation \<Rightarrow>
             (let elapsed = Seconds (Sub now (lastMetricTimestamp allocation));
                  rcvp_rate = fdiv (rcvp trafficMetric) elapsed;
                  rcvb_rate = fdiv (rcvb trafficMetric) elapsed;
                  sentp_rate = fdiv (sentp trafficMetric) elapsed;
                  sentb_rate = fdiv (sentb trafficMetric) elapsed;
                  rates = \<lparr>rcvp = rcvp_rate, rcvb = rcvb_rate, sentp = sentp_rate, sentb = sentb_rate\<rparr>;
                  st2 =
                    (case previousRates allocation of
                       Some previous \<Rightarrow>
                         call fmt_g SentByteRate (OpReplace labels sentb_rate (sentb previous))
                          (call fmt_g SentPacketRate (OpReplace labels sentp_rate (sentp previous))
                            (call fmt_g ReceivedByteRate (OpReplace labels rcvb_rate (rcvb previous))
                              (call fmt_g ReceivedPacketRate (OpReplace labels rcvp_rate (rcvp previous)) st1)))
                     | None \<Rightarrow>
                         call fmt_g SentByteRate (OpAdd labels sentb_rate)
                          (call fmt_g SentPacketRate (OpAdd labels sentp_rate)
                            (call fmt_g ReceivedByteRate (OpAdd labels rcvb_rate)
                              (call fmt_g ReceivedPacketRate (OpAdd labels rcvp_rate) st1))))
              in st2\<lparr>allocations := (allocations st2)(allocationName metadata \<mapsto>
                       \<lparr>previousRates = Some rates, lastMetricTimestamp = later\<rparr>)\<rparr>)
         | None \<Rightarrow>
             st1\<lparr>allocations := (allocations st1)(allocationName metadata \<mapsto>
                   \<lparr>previousRates = None, lastMetricTimestamp = now\<rparr>)\<rparr>)"

definition deleted :: "(float64 \<Rightarrow> string) \<Rightarrow> MessageMetadata \<Rightarrow> Labels \<Rightarrow> exporter \<Rightarrow> exporter" where
  "deleted fmt_g metadata labels st =
     (let st1 = st\<lparr>allocationGauge := Dec (With (allocationGauge st) labels) labels\<rparr>
      in case allocations st1 (allocationName metadata) of
           Some allocation \<Rightarrow>
             (let st2 =
                    (case previousRates allocation of
                       Some previous \<Rightarrow>
                         call fmt_g SentByteRate (OpRemove labels (sentb previous))
                          (call fmt_g SentPacketRate (OpRemove labels (sentp previous))
                            (call fmt_g ReceivedByteRate (OpRemove labels (rcvb previous))
                              (call fmt_g ReceivedPacketRate (OpRemove labels (rcvp previous)) st1)))
                     | None \<Rightarrow> st1)
              in st2\<lparr>allocations := (allocations st2)(allocationName metadata := None)\<rparr>)
         | None \<Rightarrow> st1)"

definition handleMessage :: "(float64 \<Rightarrow> string) \<Rightarrow> Time \<Rightarrow> Time \<Rightarrow> exporter \<Rightarrow> Message \<Rightarrow> exporter" where
  "handleMessage fmt_g now later st msg =
     (case parseKeyName (Channel msg) of
        Inl err \<Rightarrow> st\<lparr>stdout := stdout st @ [''Unexpected key name: %s '' @ Channel msg]\<rparr>
      | Inr metadata \<Rightarrow>
          (let labels = [''realm'' \<mapsto> realm metadata]
           in if messageType metadata = ''traffic'' then
                (case parseTrafficMetric (Payload msg) of
                   Inl err \<Rightarrow>
                     st\<lparr>stdout := stdout st @ [''Unexpected traffic payload: %s '' @ Payload msg]\<rparr>
                 | Inr trafficMetric \<Rightarrow> traffic fmt_g now later metadata labels trafficMetric st)
              else if messageType metadata = ''status'' then
                (if HasPrefix (Payload msg) ''new'' then
                   st\<lparr>allocationGauge := Inc (With (allocationGauge st) labels) labels\<rparr>
                 else if Payload msg = ''deleted'' then deleted fmt_g metadata labels st
                 else st)
              else st))"

text \<open>The loop, on the messages the channel delivers, each with its two clock readings.\<close>

fun watchTraffic :: "(float64 \<Rightarrow> string) \<Rightarrow> exporter \<Rightarrow> (Message \<times> Time \<times> Time) list \<Rightarrow> exporter" where
  "watchTraffic fmt_g st [] = st"
| "watchTraffic fmt_g st ((msg, now, later) # rest) =
     watchTraffic fmt_g (handleMessage fmt_g now later st msg) rest"

section \<open>Properties of the histogauge\<close>

lemma gval_With: "gval (With g k) k' = gval g k'"
  by (simp add: gval_def With_def split: option.splits)

lemma setLe_eq_iff [simp]: "(setLe l a = setLe l b) = (a = b)"
  by (auto simp: setLe_def dest: map_upd_eqD1)

lemma setLe_name: "setLe l a = setLe l' b \<Longrightarrow> a = b"
  by (auto simp: setLe_def dest: map_upd_eqD1)

lemma setLe_inj:
  assumes "l ''le'' = None" and "l' ''le'' = None"
  shows "(setLe l a = setLe l' b) = (l = l' \<and> a = b)"
proof
  assume e: "setLe l a = setLe l' b"
  have "l x = l' x" for x
  proof (cases "x = ''le''")
    case True
    then show ?thesis using assms by simp
  next
    case False
    have "setLe l a x = setLe l' b x" using e by simp
    then show ?thesis using False by (simp add: setLe_def)
  qed
  then show "l = l' \<and> a = b" using setLe_name [OF e] by auto
qed auto

lemma moved_in_range: "moved v o' b = in_range o' v b"
  by (cases v; cases o'; cases b; auto simp: moved_def in_range_def fmin_def fmax_def fgt_def)

lemma moved_same: "\<not> moved v v b"
  by (cases v; cases b; auto simp: moved_def fgt_def)

lemma moved_cases:
  "moved v o' b \<Longrightarrow> (fgt v o' \<or> flt v o')"
  by (cases v; cases o'; cases b; auto simp: moved_def fgt_def split: if_splits)

lemma moved_diff:
  "v \<noteq> NaN \<Longrightarrow> o' \<noteq> NaN \<Longrightarrow>
     (if fgt v o' then - 1 else 1) * (if moved v o' b then 1 else 0) =
     (if fle v b then 1 else 0) - (if fle o' b then (1::int) else 0)"
  by (cases v; cases o'; cases b; auto simp: moved_def fgt_def)

lemma Add_loop_apply:
  "Add_loop f nl v bs g k =
     (if (\<exists>b\<in>set bs. setLe nl (bucketName f b) = k)
      then Some (gval g k + int (length (filter (\<lambda>b. setLe nl (bucketName f b) = k \<and> fle v b) bs)))
      else g k)"
proof (induction bs arbitrary: g)
  case Nil
  then show ?case by simp
next
  case (Cons b bs)
  show ?case
    by (auto simp add: Cons.IH Let_def gval_def With_def Inc_def filter_empty_conv split: option.splits)
qed

lemma Remove_loop_apply:
  "Remove_loop f nl v bs g k =
     (if (\<exists>b\<in>set bs. setLe nl (bucketName f b) = k)
      then Some (gval g k - int (length (filter (\<lambda>b. setLe nl (bucketName f b) = k \<and> fle v b) bs)))
      else g k)"
proof (induction bs arbitrary: g)
  case Nil
  then show ?case by simp
next
  case (Cons b bs)
  show ?case
    by (auto simp add: Cons.IH Let_def gval_def With_def Dec_def filter_empty_conv split: option.splits)
qed

lemma Replace_loop_apply:
  "Replace_loop f nl v o' bs g k =
     (if (\<exists>b\<in>set bs. setLe nl (bucketName f b) = k \<and> moved v o' b)
      then Some (gval g k + (if fgt v o' then - 1 else 1) *
                   int (length (filter (\<lambda>b. setLe nl (bucketName f b) = k \<and> moved v o' b) bs)))
      else g k)"
proof (induction bs arbitrary: g)
  case Nil
  then show ?case by simp
next
  case (Cons b bs)
  show ?case
    by (auto simp add: Cons.IH Let_def gval_def With_def Inc_def Dec_def moved_def filter_empty_conv
        split: option.splits)
qed

lemma Add_apply:
  "gaugeVec (Add f h l v) k =
     (if k = setLe l ''+Inf'' \<or> (\<exists>b\<in>set (buckets h). setLe l (bucketName f b) = k)
      then Some (gval (gaugeVec h) k
                 + int (length (filter (\<lambda>b. setLe l (bucketName f b) = k \<and> fle v b) (buckets h)))
                 + (if k = setLe l ''+Inf'' then 1 else 0))
      else gaugeVec h k)"
  by (auto simp: Add_def Let_def Inc_def With_def gval_def Add_loop_apply filter_empty_conv
      split: option.splits)

lemma Remove_apply:
  "gaugeVec (Remove f h l v) k =
     (if k = setLe l ''+Inf'' \<or> (\<exists>b\<in>set (buckets h). setLe l (bucketName f b) = k)
      then Some (gval (gaugeVec h) k
                 - int (length (filter (\<lambda>b. setLe l (bucketName f b) = k \<and> fle v b) (buckets h)))
                 - (if k = setLe l ''+Inf'' then 1 else 0))
      else gaugeVec h k)"
  by (auto simp: Remove_def Let_def Dec_def With_def gval_def Remove_loop_apply filter_empty_conv
      split: option.splits)

lemma Replace_apply:
  "gaugeVec (Replace f h l v o') k =
     (if (\<exists>b\<in>set (buckets h). setLe l (bucketName f b) = k \<and> moved v o' b)
      then Some (gval (gaugeVec h) k + (if fgt v o' then - 1 else 1) *
                   int (length (filter (\<lambda>b. setLe l (bucketName f b) = k \<and> moved v o' b) (buckets h))))
      else gaugeVec h k)"
  by (auto simp: Replace_def Let_def Replace_loop_apply feq_def moved_same)

lemma buckets_Add [simp]: "buckets (Add f h l v) = buckets h"
  by (simp add: Add_def Let_def)

lemma buckets_Remove [simp]: "buckets (Remove f h l v) = buckets h"
  by (simp add: Remove_def Let_def)

lemma buckets_Replace [simp]: "buckets (Replace f h l v o') = buckets h"
  by (simp add: Replace_def Let_def)

lemma Add_gval:
  "gval (gaugeVec (Add f h l v)) k =
     gval (gaugeVec h) k
     + int (length (filter (\<lambda>b. setLe l (bucketName f b) = k \<and> fle v b) (buckets h)))
     + (if k = setLe l ''+Inf'' then 1 else 0)"
  by (auto simp: gval_def Add_apply filter_empty_conv)

lemma Remove_gval:
  "gval (gaugeVec (Remove f h l v)) k =
     gval (gaugeVec h) k
     - int (length (filter (\<lambda>b. setLe l (bucketName f b) = k \<and> fle v b) (buckets h)))
     - (if k = setLe l ''+Inf'' then 1 else 0)"
  by (auto simp: gval_def Remove_apply filter_empty_conv)

lemma Replace_gval:
  "gval (gaugeVec (Replace f h l v o')) k =
     gval (gaugeVec h) k + (if fgt v o' then - 1 else 1) *
       int (length (filter (\<lambda>b. setLe l (bucketName f b) = k \<and> moved v o' b) (buckets h)))"
  by (auto simp: gval_def Replace_apply filter_empty_conv)

lemma filter_named:
  "distinct (map f bs) \<Longrightarrow> b0 \<in> set bs \<Longrightarrow>
     filter (\<lambda>b. f b = f b0 \<and> P b) bs = (if P b0 then [b0] else [])"
proof (induction bs)
  case Nil
  then show ?case by simp
next
  case (Cons b bs)
  then show ?case by (auto simp: filter_empty_conv image_iff)
qed

lemma count_own:
  "well_named f bs \<Longrightarrow> b0 \<in> set bs \<Longrightarrow>
     filter (\<lambda>b. bucketName f b = bucketName f b0 \<and> P b) bs = (if P b0 then [b0] else [])"
  by (simp add: well_named_def filter_named)

lemma count_overflow_own:
  "well_named f bs \<Longrightarrow> filter (\<lambda>b. bucketName f b = ''+Inf'' \<and> P b) bs = []"
  by (auto simp: well_named_def filter_empty_conv)

lemma count_overflow:
  assumes "well_named f bs"
  shows "filter (\<lambda>b. setLe l (bucketName f b) = setLe l' ''+Inf'' \<and> P b) bs = []"
proof -
  have "setLe l (bucketName f b) \<noteq> setLe l' ''+Inf''" if "b \<in> set bs" for b
  proof
    assume "setLe l (bucketName f b) = setLe l' ''+Inf''"
    then have "bucketName f b = ''+Inf''" by (rule setLe_name)
    with that assms show False by (auto simp: well_named_def)
  qed
  then show ?thesis by (simp add: filter_empty_conv)
qed

lemma count_other:
  assumes "well_named f bs" and "l ''le'' = None" and "l' ''le'' = None" and "b0 \<in> set bs"
  shows "length (filter (\<lambda>b. setLe l (bucketName f b) = setLe l' (bucketName f b0) \<and> P b) bs) =
       (if l = l' \<and> P b0 then 1 else 0)"
proof (cases "l = l'")
  case True
  then show ?thesis by (simp add: count_own [OF assms(1) assms(4)])
next
  case False
  then show ?thesis using assms(2,3) by (simp add: setLe_inj)
qed

text \<open>
  C4. \<^verbatim>\<open>Add(labels, v)\<close> creates the series of every threshold and the overflow series of
  \<open>labels\<close>, adds one to the series of exactly the thresholds \<open>b\<close> with \<open>v \<le> b\<close> and to
  the overflow series, and changes no other series. \<^verbatim>\<open>Remove(labels, v)\<close> subtracts one
  in the same places, so that removing what was added restores every population.
\<close>

theorem Add_Remove_buckets:
  assumes "well_named fmt_g (buckets h)"
  shows "(\<forall>b\<in>set (buckets h).
            gaugeVec (Add fmt_g h labels v) (setLe labels (bucketName fmt_g b)) =
              Some (gval (gaugeVec h) (setLe labels (bucketName fmt_g b)) + (if fle v b then 1 else 0))
          \<and> gaugeVec (Remove fmt_g h labels v) (setLe labels (bucketName fmt_g b)) =
              Some (gval (gaugeVec h) (setLe labels (bucketName fmt_g b)) - (if fle v b then 1 else 0)))
       \<and> gaugeVec (Add fmt_g h labels v) (setLe labels ''+Inf'') =
           Some (gval (gaugeVec h) (setLe labels ''+Inf'') + 1)
       \<and> gaugeVec (Remove fmt_g h labels v) (setLe labels ''+Inf'') =
           Some (gval (gaugeVec h) (setLe labels ''+Inf'') - 1)
       \<and> (\<forall>k. k \<noteq> setLe labels ''+Inf'' \<and> (\<forall>b\<in>set (buckets h). k \<noteq> setLe labels (bucketName fmt_g b))
              \<longrightarrow> gaugeVec (Add fmt_g h labels v) k = gaugeVec h k
                \<and> gaugeVec (Remove fmt_g h labels v) k = gaugeVec h k)
       \<and> (\<forall>k. gval (gaugeVec (Remove fmt_g (Add fmt_g h labels v) labels v)) k = gval (gaugeVec h) k)"
proof -
  have thr: "gaugeVec (Add fmt_g h labels v) (setLe labels (bucketName fmt_g b)) =
              Some (gval (gaugeVec h) (setLe labels (bucketName fmt_g b)) + (if fle v b then 1 else 0))
          \<and> gaugeVec (Remove fmt_g h labels v) (setLe labels (bucketName fmt_g b)) =
              Some (gval (gaugeVec h) (setLe labels (bucketName fmt_g b)) - (if fle v b then 1 else 0))"
    if "b \<in> set (buckets h)" for b
  proof -
    have ne: "bucketName fmt_g b \<noteq> ''+Inf''"
      using assms that by (simp add: well_named_def)
    have ex: "\<exists>c\<in>set (buckets h). bucketName fmt_g c = bucketName fmt_g b"
      using that by blast
    show ?thesis
      using ne ex by (simp add: Add_apply Remove_apply count_own [OF assms that])
  qed
  have ovf: "gaugeVec (Add fmt_g h labels v) (setLe labels ''+Inf'') =
           Some (gval (gaugeVec h) (setLe labels ''+Inf'') + 1)
       \<and> gaugeVec (Remove fmt_g h labels v) (setLe labels ''+Inf'') =
           Some (gval (gaugeVec h) (setLe labels ''+Inf'') - 1)"
    by (simp add: Add_apply Remove_apply count_overflow_own [OF assms])
  have frame: "gaugeVec (Add fmt_g h labels v) k = gaugeVec h k
                \<and> gaugeVec (Remove fmt_g h labels v) k = gaugeVec h k"
    if "k \<noteq> setLe labels ''+Inf'' \<and> (\<forall>b\<in>set (buckets h). k \<noteq> setLe labels (bucketName fmt_g b))" for k
    using that by (auto simp: Add_apply Remove_apply)
  have inv: "gval (gaugeVec (Remove fmt_g (Add fmt_g h labels v) labels v)) k = gval (gaugeVec h) k" for k
    by (simp add: Add_gval Remove_gval)
  from thr ovf frame inv show ?thesis by blast
qed

theorem Add_Remove_buckets_witness:
  "well_named fmt_g_thresholds (buckets (NewHistogauge [Fin 50, Fin 100]))
   \<and> gaugeVec (Add fmt_g_thresholds (NewHistogauge [Fin 50, Fin 100]) [''realm'' \<mapsto> ''r''] (Fin 60))
       (setLe [''realm'' \<mapsto> ''r''] ''50'') = Some 0
   \<and> gaugeVec (Add fmt_g_thresholds (NewHistogauge [Fin 50, Fin 100]) [''realm'' \<mapsto> ''r''] (Fin 60))
       (setLe [''realm'' \<mapsto> ''r''] ''100'') = Some 1
   \<and> gaugeVec (Add fmt_g_thresholds (NewHistogauge [Fin 50, Fin 100]) [''realm'' \<mapsto> ''r''] (Fin 60))
       (setLe [''realm'' \<mapsto> ''r''] ''+Inf'') = Some 1
   \<and> gaugeVec (Remove fmt_g_thresholds (NewHistogauge [Fin 50, Fin 100]) [''realm'' \<mapsto> ''r''] (Fin 60))
       (setLe [''realm'' \<mapsto> ''r''] ''100'') = Some (- 1)"
proof -
  have wn: "well_named fmt_g_thresholds (buckets (NewHistogauge [Fin 50, Fin 100]))"
    by (simp add: well_named_def bucketName_def fmt_g_thresholds_def NewHistogauge_def)
  show ?thesis
    using wn Add_Remove_buckets [OF wn, of "[''realm'' \<mapsto> ''r'']" "Fin 60"]
    by (simp add: NewHistogauge_def bucketName_def fmt_g_thresholds_def gval_def)
qed

lemma gval_empty: "gval Map.empty k = 0"
  by (simp add: gval_def)

text \<open>
  C3. \<^verbatim>\<open>Replace(labels, v, o)\<close> returns the histogauge as it was when \<open>v\<close> and \<open>o\<close> are
  the same value. Otherwise the series of a threshold \<open>b\<close> with \<open>min o v \<le> b < max o v\<close>
  loses one when \<open>v > o\<close> and gains one when \<open>v < o\<close>; the series of every other threshold,
  the overflow series and every series of another label set stay as they were.
\<close>

theorem Replace_buckets:
  assumes "well_named fmt_g (buckets h)"
  shows "(v = o' \<longrightarrow> Replace fmt_g h labels v o' = h)
       \<and> (\<forall>b\<in>set (buckets h).
            gaugeVec (Replace fmt_g h labels v o') (setLe labels (bucketName fmt_g b)) =
              (if fgt v o' \<and> in_range o' v b
               then Some (gval (gaugeVec h) (setLe labels (bucketName fmt_g b)) - 1)
               else if flt v o' \<and> in_range o' v b
               then Some (gval (gaugeVec h) (setLe labels (bucketName fmt_g b)) + 1)
               else gaugeVec h (setLe labels (bucketName fmt_g b))))
       \<and> gaugeVec (Replace fmt_g h labels v o') (setLe labels ''+Inf'') = gaugeVec h (setLe labels ''+Inf'')
       \<and> (\<forall>k. (\<forall>b\<in>set (buckets h). k \<noteq> setLe labels (bucketName fmt_g b))
              \<longrightarrow> gaugeVec (Replace fmt_g h labels v o') k = gaugeVec h k)
       \<and> buckets (Replace fmt_g h labels v o') = buckets h"
proof -
  have same: "Replace fmt_g h labels v v = h"
  proof -
    have "gaugeVec (Replace fmt_g h labels v v) = gaugeVec h"
      by (rule ext) (simp add: Replace_apply moved_same)
    then show ?thesis by (simp add: Replace_def Let_def split: if_splits)
  qed
  have thr: "gaugeVec (Replace fmt_g h labels v o') (setLe labels (bucketName fmt_g b)) =
              (if fgt v o' \<and> in_range o' v b
               then Some (gval (gaugeVec h) (setLe labels (bucketName fmt_g b)) - 1)
               else if flt v o' \<and> in_range o' v b
               then Some (gval (gaugeVec h) (setLe labels (bucketName fmt_g b)) + 1)
               else gaugeVec h (setLe labels (bucketName fmt_g b)))"
    if "b \<in> set (buckets h)" for b
  proof (cases "moved v o' b")
    case True
    then have ex: "\<exists>c\<in>set (buckets h). bucketName fmt_g c = bucketName fmt_g b \<and> moved v o' c"
      using that by blast
    have "fgt v o' \<or> flt v o'" using True by (rule moved_cases)
    moreover have "\<not> (fgt v o' \<and> flt v o')"
      by (cases v; cases o'; simp add: fgt_def)
    ultimately show ?thesis
      using True ex by (auto simp add: Replace_apply count_own [OF assms that] moved_in_range)
  next
    case False
    have "\<not> (\<exists>c\<in>set (buckets h). bucketName fmt_g c = bucketName fmt_g b \<and> moved v o' c)"
    proof
      assume "\<exists>c\<in>set (buckets h). bucketName fmt_g c = bucketName fmt_g b \<and> moved v o' c"
      then obtain c where c: "c \<in> set (buckets h)" "bucketName fmt_g c = bucketName fmt_g b" "moved v o' c"
        by blast
      have "filter (\<lambda>d. bucketName fmt_g d = bucketName fmt_g b \<and> moved v o' d) (buckets h) = []"
        using False by (simp add: count_own [OF assms that])
      then show False using c by (simp add: filter_empty_conv)
    qed
    then show ?thesis using False by (auto simp add: Replace_apply moved_in_range)
  qed
  have ovf: "gaugeVec (Replace fmt_g h labels v o') (setLe labels ''+Inf'') = gaugeVec h (setLe labels ''+Inf'')"
    using assms by (auto simp: Replace_apply well_named_def)
  have frame: "gaugeVec (Replace fmt_g h labels v o') k = gaugeVec h k"
    if "\<forall>b\<in>set (buckets h). k \<noteq> setLe labels (bucketName fmt_g b)" for k
    using that by (auto simp: Replace_apply)
  from same thr ovf frame show ?thesis by auto
qed

theorem Replace_buckets_witness:
  "well_named fmt_g_thresholds (buckets (NewHistogauge [Fin 50, Fin 100]))
   \<and> gaugeVec (Replace fmt_g_thresholds (NewHistogauge [Fin 50, Fin 100]) [''realm'' \<mapsto> ''r''] (Fin 40) (Fin 60))
       (setLe [''realm'' \<mapsto> ''r''] ''50'') = Some 1
   \<and> gaugeVec (Replace fmt_g_thresholds (NewHistogauge [Fin 50, Fin 100]) [''realm'' \<mapsto> ''r''] (Fin 40) (Fin 60))
       (setLe [''realm'' \<mapsto> ''r''] ''100'') = None
   \<and> gaugeVec (Replace fmt_g_thresholds (NewHistogauge [Fin 50, Fin 100]) [''realm'' \<mapsto> ''r''] (Fin 40) (Fin 60))
       (setLe [''realm'' \<mapsto> ''r''] ''+Inf'') = None"
proof -
  have wn: "well_named fmt_g_thresholds (buckets (NewHistogauge [Fin 50, Fin 100]))"
    by (simp add: well_named_def bucketName_def fmt_g_thresholds_def NewHistogauge_def)
  show ?thesis
    using wn Replace_buckets [OF wn, of "Fin 40" "Fin 60" "[''realm'' \<mapsto> ''r'']"]
    by (simp add: NewHistogauge_def bucketName_def fmt_g_thresholds_def gval_def in_range_def
        fmin_def fmax_def fgt_def)
qed

text \<open>
  C10. \<^verbatim>\<open>Replace\<close> creates no series but those it changes: a series that is absent before
  the call and is not the series of a threshold inside the interval is absent after it, the
  overflow series among them. \<^verbatim>\<open>Add\<close> and \<^verbatim>\<open>Remove\<close> create the series of every threshold
  and the overflow series.
\<close>

theorem Replace_creates_no_series:
  assumes "well_named fmt_g (buckets h)"
  shows "(\<forall>b\<in>set (buckets h).
            gaugeVec h (setLe labels (bucketName fmt_g b)) = None \<and> \<not> in_range o' v b
            \<longrightarrow> gaugeVec (Replace fmt_g h labels v o') (setLe labels (bucketName fmt_g b)) = None)
       \<and> (gaugeVec h (setLe labels ''+Inf'') = None
            \<longrightarrow> gaugeVec (Replace fmt_g h labels v o') (setLe labels ''+Inf'') = None)
       \<and> (\<forall>k. gaugeVec h k = None
              \<and> \<not> (\<exists>b\<in>set (buckets h). k = setLe labels (bucketName fmt_g b) \<and> in_range o' v b)
            \<longrightarrow> gaugeVec (Replace fmt_g h labels v o') k = None)
       \<and> (\<forall>b\<in>set (buckets h).
            gaugeVec (Add fmt_g h labels v) (setLe labels (bucketName fmt_g b)) \<noteq> None
          \<and> gaugeVec (Remove fmt_g h labels v) (setLe labels (bucketName fmt_g b)) \<noteq> None)
       \<and> gaugeVec (Add fmt_g h labels v) (setLe labels ''+Inf'') \<noteq> None
       \<and> gaugeVec (Remove fmt_g h labels v) (setLe labels ''+Inf'') \<noteq> None"
proof -
  have any: "gaugeVec (Replace fmt_g h labels v o') k = None"
    if "gaugeVec h k = None"
      and "\<not> (\<exists>b\<in>set (buckets h). k = setLe labels (bucketName fmt_g b) \<and> in_range o' v b)" for k
    using that by (auto simp: Replace_apply moved_in_range)
  have thr: "gaugeVec (Replace fmt_g h labels v o') (setLe labels (bucketName fmt_g b)) = None"
    if b: "b \<in> set (buckets h)" and none: "gaugeVec h (setLe labels (bucketName fmt_g b)) = None"
      and out: "\<not> in_range o' v b" for b
  proof (rule any [OF none])
    show "\<not> (\<exists>c\<in>set (buckets h).
               setLe labels (bucketName fmt_g b) = setLe labels (bucketName fmt_g c) \<and> in_range o' v c)"
    proof
      assume "\<exists>c\<in>set (buckets h).
               setLe labels (bucketName fmt_g b) = setLe labels (bucketName fmt_g c) \<and> in_range o' v c"
      then obtain c where c: "c \<in> set (buckets h)" "bucketName fmt_g c = bucketName fmt_g b" "in_range o' v c"
        by auto
      have "filter (\<lambda>d. bucketName fmt_g d = bucketName fmt_g b \<and> in_range o' v d) (buckets h) = []"
        using out by (simp add: count_own [OF assms b])
      then show False using c by (simp add: filter_empty_conv)
    qed
  qed
  have ovf: "gaugeVec (Replace fmt_g h labels v o') (setLe labels ''+Inf'') = None"
    if "gaugeVec h (setLe labels ''+Inf'') = None"
    using that assms by (auto simp: Replace_apply well_named_def)
  have mat: "gaugeVec (Add fmt_g h labels v) (setLe labels (bucketName fmt_g b)) \<noteq> None
          \<and> gaugeVec (Remove fmt_g h labels v) (setLe labels (bucketName fmt_g b)) \<noteq> None"
    if "b \<in> set (buckets h)" for b
    using that by (auto simp: Add_apply Remove_apply)
  have mato: "gaugeVec (Add fmt_g h labels v) (setLe labels ''+Inf'') \<noteq> None
       \<and> gaugeVec (Remove fmt_g h labels v) (setLe labels ''+Inf'') \<noteq> None"
    by (simp add: Add_apply Remove_apply)
  from any thr ovf mat mato show ?thesis by blast
qed

theorem Replace_creates_no_series_witness:
  "well_named fmt_g_thresholds (buckets (NewHistogauge [Fin 50, Fin 100]))
   \<and> gaugeVec (NewHistogauge [Fin 50, Fin 100]) (setLe [''realm'' \<mapsto> ''r''] ''100'') = None
   \<and> \<not> in_range (Fin 60) (Fin 40) (Fin 100)
   \<and> gaugeVec (Replace fmt_g_thresholds (NewHistogauge [Fin 50, Fin 100]) [''realm'' \<mapsto> ''r''] (Fin 40) (Fin 60))
       (setLe [''realm'' \<mapsto> ''r''] ''100'') = None
   \<and> gaugeVec (Replace fmt_g_thresholds (NewHistogauge [Fin 50, Fin 100]) [''realm'' \<mapsto> ''r''] (Fin 40) (Fin 60))
       (setLe [''realm'' \<mapsto> ''r''] ''+Inf'') = None
   \<and> gaugeVec (Add fmt_g_thresholds (NewHistogauge [Fin 50, Fin 100]) [''realm'' \<mapsto> ''r''] (Fin 40))
       (setLe [''realm'' \<mapsto> ''r''] ''100'') \<noteq> None
   \<and> gaugeVec (Remove fmt_g_thresholds (NewHistogauge [Fin 50, Fin 100]) [''realm'' \<mapsto> ''r''] (Fin 40))
       (setLe [''realm'' \<mapsto> ''r''] ''+Inf'') \<noteq> None"
proof -
  have wn: "well_named fmt_g_thresholds (buckets (NewHistogauge [Fin 50, Fin 100]))"
    by (simp add: well_named_def bucketName_def fmt_g_thresholds_def NewHistogauge_def)
  show ?thesis
    using wn Replace_creates_no_series [OF wn, where labels = "[''realm'' \<mapsto> ''r'']" and o' = "Fin 60" and v = "Fin 40"]
    by (simp add: NewHistogauge_def bucketName_def fmt_g_thresholds_def in_range_def fmin_def fmax_def)
qed

lemma count_moved:
  assumes "v \<noteq> NaN" and "o' \<noteq> NaN"
  shows "(if fgt v o' then - 1 else 1) * int (length (filter (\<lambda>b. Q b \<and> moved v o' b) bs)) =
         int (length (filter (\<lambda>b. Q b \<and> fle v b) bs)) - int (length (filter (\<lambda>b. Q b \<and> fle o' b) bs))"
proof (induction bs)
  case Nil
  then show ?case by simp
next
  case (Cons b bs)
  from moved_diff [OF assms, of b] Cons.IH show ?case
    by (auto split: if_splits)
qed

text \<open>
  C2. For values \<open>a\<close> and \<open>b\<close> that are not NaN, \<^verbatim>\<open>Replace(labels, b, a)\<close> and
  \<^verbatim>\<open>Remove(labels, a)\<close> followed by \<^verbatim>\<open>Add(labels, b)\<close> end with the same population in
  every series, a series that does not exist counting as 0. \<^verbatim>\<open>Replace\<close> leaves the overflow
  series as it is; the other sequence takes one from it and gives it back.
\<close>

theorem Replace_eq_Remove_Add:
  assumes "a \<noteq> NaN" and "b \<noteq> NaN" and "well_named fmt_g (buckets h)"
  shows "(\<forall>k. gval (gaugeVec (Replace fmt_g h labels b a)) k =
              gval (gaugeVec (Add fmt_g (Remove fmt_g h labels a) labels b)) k)
       \<and> gaugeVec (Replace fmt_g h labels b a) (setLe labels ''+Inf'') = gaugeVec h (setLe labels ''+Inf'')
       \<and> gval (gaugeVec (Remove fmt_g h labels a)) (setLe labels ''+Inf'') =
           gval (gaugeVec h) (setLe labels ''+Inf'') - 1
       \<and> gval (gaugeVec (Add fmt_g (Remove fmt_g h labels a) labels b)) (setLe labels ''+Inf'') =
           gval (gaugeVec h) (setLe labels ''+Inf'')"
proof -
  have pop: "gval (gaugeVec (Replace fmt_g h labels b a)) k =
              gval (gaugeVec (Add fmt_g (Remove fmt_g h labels a) labels b)) k" for k
    by (simp add: Replace_gval Add_gval Remove_gval count_moved [OF assms(2) assms(1)])
  have ovf: "gaugeVec (Replace fmt_g h labels b a) (setLe labels ''+Inf'') = gaugeVec h (setLe labels ''+Inf'')"
    using assms(3) by (auto simp: Replace_apply well_named_def)
  have rem: "gval (gaugeVec (Remove fmt_g h labels a)) (setLe labels ''+Inf'') =
           gval (gaugeVec h) (setLe labels ''+Inf'') - 1"
    by (simp add: Remove_gval count_overflow_own [OF assms(3)])
  have both: "gval (gaugeVec (Add fmt_g (Remove fmt_g h labels a) labels b)) (setLe labels ''+Inf'') =
           gval (gaugeVec h) (setLe labels ''+Inf'')"
    by (simp add: Add_gval Remove_gval count_overflow_own [OF assms(3)])
  from pop ovf rem both show ?thesis by blast
qed

theorem Replace_eq_Remove_Add_witness:
  "Fin 60 \<noteq> NaN \<and> Fin 40 \<noteq> NaN
   \<and> well_named fmt_g_thresholds (buckets (NewHistogauge [Fin 50, Fin 100]))
   \<and> gval (gaugeVec (Add fmt_g_thresholds
        (Remove fmt_g_thresholds (NewHistogauge [Fin 50, Fin 100]) [''realm'' \<mapsto> ''r''] (Fin 60))
        [''realm'' \<mapsto> ''r''] (Fin 40))) (setLe [''realm'' \<mapsto> ''r''] ''50'') = 1
   \<and> gval (gaugeVec (Replace fmt_g_thresholds (NewHistogauge [Fin 50, Fin 100])
        [''realm'' \<mapsto> ''r''] (Fin 40) (Fin 60))) (setLe [''realm'' \<mapsto> ''r''] ''50'') = 1"
proof -
  have wn: "well_named fmt_g_thresholds (buckets (NewHistogauge [Fin 50, Fin 100]))"
    by (simp add: well_named_def bucketName_def fmt_g_thresholds_def NewHistogauge_def)
  have e: "gval (gaugeVec (Replace fmt_g_thresholds (NewHistogauge [Fin 50, Fin 100])
        [''realm'' \<mapsto> ''r''] (Fin 40) (Fin 60))) (setLe [''realm'' \<mapsto> ''r''] ''50'') = 1"
    by (simp add: Replace_gval NewHistogauge_def bucketName_def fmt_g_thresholds_def gval_empty
        moved_def fgt_def)
  from Replace_eq_Remove_Add [OF _ _ wn, of "Fin 60" "Fin 40" "[''realm'' \<mapsto> ''r'']"] e wn
  show ?thesis by simp
qed

text \<open>
  The claim as it is written fails when one of the two values is NaN: after NaN was added,
  replacing it by 40 changes nothing, while removing it and adding 40 counts 40 under the
  threshold 50.
\<close>

theorem Replace_eq_Remove_Add_counterexample:
  "gval (gaugeVec (Replace fmt_g_thresholds
        (Add fmt_g_thresholds (NewHistogauge [Fin 50, Fin 100]) [''realm'' \<mapsto> ''r''] NaN)
        [''realm'' \<mapsto> ''r''] (Fin 40) NaN)) (setLe [''realm'' \<mapsto> ''r''] ''50'') = 0
   \<and> gval (gaugeVec (Add fmt_g_thresholds
        (Remove fmt_g_thresholds
          (Add fmt_g_thresholds (NewHistogauge [Fin 50, Fin 100]) [''realm'' \<mapsto> ''r''] NaN)
          [''realm'' \<mapsto> ''r''] NaN)
        [''realm'' \<mapsto> ''r''] (Fin 40))) (setLe [''realm'' \<mapsto> ''r''] ''50'') = 1"
  by (simp add: Replace_gval Add_gval Remove_gval NewHistogauge_def bucketName_def
      fmt_g_thresholds_def gval_empty moved_def fgt_def)

lemma length_filter_remove1:
  "x \<in> set xs \<Longrightarrow>
     int (length (filter P (remove1 x xs))) = int (length (filter P xs)) - (if P x then 1 else 0)"
  by (induction xs) auto

lemma length_remove1_in:
  "x \<in> set xs \<Longrightarrow> int (length (remove1 x xs)) = int (length xs) - 1"
  by (induction xs) auto

lemma overflow_not_threshold:
  "well_named f bs \<Longrightarrow> b \<in> set bs \<Longrightarrow> setLe l (bucketName f b) \<noteq> setLe l' ''+Inf''"
  by (auto simp: well_named_def dest: setLe_name)

lemma Add_counts:
  assumes wn: "well_named f (buckets h)" and lf: "l ''le'' = None"
    and inv: "counts_agree f h T"
  shows "counts_agree f (Add f h l v) (T(l := v # T l))"
  unfolding counts_agree_def
proof (intro allI impI conjI ballI)
  fix l' :: Labels and b assume l': "l' ''le'' = None" and "b \<in> set (buckets (Add f h l v))"
  then have b: "b \<in> set (buckets h)" by simp
  have old: "gval (gaugeVec h) (setLe l' (bucketName f b)) = int (length (filter (\<lambda>v. fle v b) (T l')))"
    using inv l' b by (simp add: counts_agree_def)
  show "gval (gaugeVec (Add f h l v)) (setLe l' (bucketName f b)) =
          int (length (filter (\<lambda>v. fle v b) ((T(l := v # T l)) l')))"
    using overflow_not_threshold [OF wn b, of l' l]
    by (auto simp: Add_gval old count_other [where l = l and l' = l', OF wn lf l' b])
next
  fix l' :: Labels assume l': "l' ''le'' = None"
  have old: "gval (gaugeVec h) (setLe l' ''+Inf'') = int (length (T l'))"
    using inv l' by (simp add: counts_agree_def)
  show "gval (gaugeVec (Add f h l v)) (setLe l' ''+Inf'') = int (length ((T(l := v # T l)) l'))"
    by (auto simp: Add_gval old count_overflow [OF wn] setLe_inj [where l = l' and l' = l, OF l' lf])
qed

lemma Remove_counts:
  assumes wn: "well_named f (buckets h)" and lf: "l ''le'' = None"
    and inv: "counts_agree f h T" and ok: "v \<in> set (T l)"
  shows "counts_agree f (Remove f h l v) (T(l := remove1 v (T l)))"
  unfolding counts_agree_def
proof (intro allI impI conjI ballI)
  fix l' :: Labels and b assume l': "l' ''le'' = None" and "b \<in> set (buckets (Remove f h l v))"
  then have b: "b \<in> set (buckets h)" by simp
  have old: "gval (gaugeVec h) (setLe l' (bucketName f b)) = int (length (filter (\<lambda>v. fle v b) (T l')))"
    using inv l' b by (simp add: counts_agree_def)
  show "gval (gaugeVec (Remove f h l v)) (setLe l' (bucketName f b)) =
          int (length (filter (\<lambda>v. fle v b) ((T(l := remove1 v (T l))) l')))"
    using overflow_not_threshold [OF wn b, of l' l] length_filter_remove1 [OF ok, of "\<lambda>v. fle v b"]
    by (auto simp: Remove_gval old count_other [where l = l and l' = l', OF wn lf l' b])
next
  fix l' :: Labels assume l': "l' ''le'' = None"
  have old: "gval (gaugeVec h) (setLe l' ''+Inf'') = int (length (T l'))"
    using inv l' by (simp add: counts_agree_def)
  show "gval (gaugeVec (Remove f h l v)) (setLe l' ''+Inf'') = int (length ((T(l := remove1 v (T l))) l'))"
    by (auto simp: Remove_gval old count_overflow [OF wn] setLe_inj [where l = l' and l' = l, OF l' lf] length_remove1_in [OF ok])
qed

lemma Replace_counts:
  assumes wn: "well_named f (buckets h)" and lf: "l ''le'' = None"
    and inv: "counts_agree f h T" and ok: "o' \<in> set (T l)"
    and nn: "v \<noteq> NaN" "o' \<noteq> NaN"
  shows "counts_agree f (Replace f h l v o') (T(l := v # remove1 o' (T l)))"
  unfolding counts_agree_def
proof (intro allI impI conjI ballI)
  fix l' :: Labels and b assume l': "l' ''le'' = None" and "b \<in> set (buckets (Replace f h l v o'))"
  then have b: "b \<in> set (buckets h)" by simp
  have old: "gval (gaugeVec h) (setLe l' (bucketName f b)) = int (length (filter (\<lambda>v. fle v b) (T l')))"
    using inv l' b by (simp add: counts_agree_def)
  show "gval (gaugeVec (Replace f h l v o')) (setLe l' (bucketName f b)) =
          int (length (filter (\<lambda>v. fle v b) ((T(l := v # remove1 o' (T l))) l')))"
    using moved_diff [OF nn, of b] length_filter_remove1 [OF ok, of "\<lambda>v. fle v b"]
    by (auto simp: Replace_gval old count_other [where l = l and l' = l', OF wn lf l' b]
        split: if_splits)
next
  fix l' :: Labels assume l': "l' ''le'' = None"
  have old: "gval (gaugeVec h) (setLe l' ''+Inf'') = int (length (T l'))"
    using inv l' by (simp add: counts_agree_def)
  show "gval (gaugeVec (Replace f h l v o')) (setLe l' ''+Inf'') =
          int (length ((T(l := v # remove1 o' (T l))) l'))"
    using length_remove1_in [OF ok]
    by (auto simp: Replace_gval old count_overflow [OF wn])
qed

lemma apply_op_counts:
  assumes "well_named f (buckets h)" and "well_formed_op c" and "permitted T c"
    and "counts_agree f h T"
  shows "counts_agree f (apply_op f h c) (track T c)"
proof (cases c)
  case (OpAdd l v)
  with assms show ?thesis by (simp add: well_formed_op_def Add_counts)
next
  case (OpRemove l v)
  with assms show ?thesis by (simp add: well_formed_op_def Remove_counts)
next
  case (OpReplace l v o')
  with assms have "v \<noteq> NaN" "o' \<noteq> NaN" "l ''le'' = None" "o' \<in> set (T l)"
    by (auto simp: well_formed_op_def)
  with assms OpReplace show ?thesis by (simp add: Replace_counts)
qed

lemma buckets_apply_op [simp]: "buckets (apply_op f h c) = buckets h"
  by (cases c) simp_all

lemma run_ops_counts:
  assumes "well_named f (buckets h)" and "\<forall>c\<in>set cs. well_formed_op c"
    and "follows_contract T cs" and "counts_agree f h T"
  shows "counts_agree f (run_ops f h cs) (tracked T cs) \<and> buckets (run_ops f h cs) = buckets h"
  using assms
proof (induction cs arbitrary: h T)
  case Nil
  then show ?case by simp
next
  case (Cons c cs)
  have "counts_agree f (apply_op f h c) (track T c)"
    using Cons.prems by (simp add: apply_op_counts)
  moreover have "well_named f (buckets (apply_op f h c))"
    using Cons.prems by simp
  ultimately show ?case
    using Cons.IH [of "apply_op f h c" "track T c"] Cons.prems by simp
qed

lemma counts_agree_New: "counts_agree f (NewHistogauge bs) (\<lambda>l. [])"
  by (simp add: counts_agree_def NewHistogauge_def gval_empty)

text \<open>
  C1. Start from a new histogauge whose thresholds are well named and run calls that follow
  the contract, with no NaN among the values and no label \<^verbatim>\<open>le\<close> in the label sets. Then
  for every label set the series of each threshold \<open>b\<close> holds the number of current values
  that are at most \<open>b\<close>, which is not negative, and the overflow series holds the number of
  values added and not removed.
\<close>

theorem populations_after_calls:
  assumes "well_named fmt_g bs" and "\<forall>c\<in>set cs. well_formed_op c"
    and "follows_contract (\<lambda>l. []) cs" and "labels ''le'' = None"
  shows "(\<forall>b\<in>set bs.
            0 \<le> gval (gaugeVec (run_ops fmt_g (NewHistogauge bs) cs)) (setLe labels (bucketName fmt_g b))
          \<and> gval (gaugeVec (run_ops fmt_g (NewHistogauge bs) cs)) (setLe labels (bucketName fmt_g b)) =
              int (length (filter (\<lambda>v. fle v b) (tracked (\<lambda>l. []) cs labels))))
       \<and> gval (gaugeVec (run_ops fmt_g (NewHistogauge bs) cs)) (setLe labels ''+Inf'') =
           int (length (tracked (\<lambda>l. []) cs labels))"
proof -
  have bs: "buckets (NewHistogauge bs) = bs"
    by (simp add: NewHistogauge_def)
  have "counts_agree fmt_g (run_ops fmt_g (NewHistogauge bs) cs) (tracked (\<lambda>l. []) cs)
        \<and> buckets (run_ops fmt_g (NewHistogauge bs) cs) = buckets (NewHistogauge bs)"
    using assms(1-3) by (intro run_ops_counts) (simp_all add: bs counts_agree_New)
  then show ?thesis
    using assms(4) by (simp add: counts_agree_def bs)
qed

theorem populations_after_calls_witness:
  "well_named fmt_g_thresholds [Fin 50, Fin 100]
   \<and> follows_contract (\<lambda>l. [])
       [OpAdd [''realm'' \<mapsto> ''r''] (Fin 60), OpAdd [''realm'' \<mapsto> ''r''] (Fin 70),
        OpReplace [''realm'' \<mapsto> ''r''] (Fin 40) (Fin 60)]
   \<and> gval (gaugeVec (run_ops fmt_g_thresholds (NewHistogauge [Fin 50, Fin 100])
       [OpAdd [''realm'' \<mapsto> ''r''] (Fin 60), OpAdd [''realm'' \<mapsto> ''r''] (Fin 70),
        OpReplace [''realm'' \<mapsto> ''r''] (Fin 40) (Fin 60)])) (setLe [''realm'' \<mapsto> ''r''] ''50'') = 1
   \<and> gval (gaugeVec (run_ops fmt_g_thresholds (NewHistogauge [Fin 50, Fin 100])
       [OpAdd [''realm'' \<mapsto> ''r''] (Fin 60), OpAdd [''realm'' \<mapsto> ''r''] (Fin 70),
        OpReplace [''realm'' \<mapsto> ''r''] (Fin 40) (Fin 60)])) (setLe [''realm'' \<mapsto> ''r''] ''100'') = 2
   \<and> gval (gaugeVec (run_ops fmt_g_thresholds (NewHistogauge [Fin 50, Fin 100])
       [OpAdd [''realm'' \<mapsto> ''r''] (Fin 60), OpAdd [''realm'' \<mapsto> ''r''] (Fin 70),
        OpReplace [''realm'' \<mapsto> ''r''] (Fin 40) (Fin 60)])) (setLe [''realm'' \<mapsto> ''r''] ''+Inf'') = 2"
proof -
  have wn: "well_named fmt_g_thresholds [Fin 50, Fin 100]"
    by (simp add: well_named_def bucketName_def fmt_g_thresholds_def)
  have wf: "\<forall>c\<in>set [OpAdd [''realm'' \<mapsto> ''r''] (Fin 60), OpAdd [''realm'' \<mapsto> ''r''] (Fin 70),
        OpReplace [''realm'' \<mapsto> ''r''] (Fin 40) (Fin 60)]. well_formed_op c"
    by (simp add: well_formed_op_def)
  have fc: "follows_contract (\<lambda>l. [])
       [OpAdd [''realm'' \<mapsto> ''r''] (Fin 60), OpAdd [''realm'' \<mapsto> ''r''] (Fin 70),
        OpReplace [''realm'' \<mapsto> ''r''] (Fin 40) (Fin 60)]"
    by simp
  have lf: "[''realm'' \<mapsto> ''r''] ''le'' = None"
    by simp
  show ?thesis
    using wn fc populations_after_calls [where labels = "[''realm'' \<mapsto> ''r'']", OF wn wf fc lf]
    by (simp add: bucketName_def fmt_g_thresholds_def)
qed

text \<open>
  The claim as it is written fails with NaN, which the exporter passes when a sample of
  zero arrives after zero seconds: NaN is added, replaced by 40 (nothing changes, every
  comparison with NaN being false) and 40 is removed. The series of threshold 50 ends at
  \<open>- 1\<close>.
\<close>

theorem populations_after_calls_counterexample:
  "follows_contract (\<lambda>l. [])
     [OpAdd [''realm'' \<mapsto> ''r''] NaN, OpReplace [''realm'' \<mapsto> ''r''] (Fin 40) NaN,
      OpRemove [''realm'' \<mapsto> ''r''] (Fin 40)]
   \<and> well_named fmt_g_thresholds [Fin 50, Fin 100]
   \<and> gval (gaugeVec (run_ops fmt_g_thresholds (NewHistogauge [Fin 50, Fin 100])
       [OpAdd [''realm'' \<mapsto> ''r''] NaN, OpReplace [''realm'' \<mapsto> ''r''] (Fin 40) NaN,
        OpRemove [''realm'' \<mapsto> ''r''] (Fin 40)])) (setLe [''realm'' \<mapsto> ''r''] ''50'') = - 1"
  by (simp add: Replace_gval Add_gval Remove_gval NewHistogauge_def bucketName_def
      fmt_g_thresholds_def gval_empty moved_def fgt_def well_named_def)

section \<open>Properties of the exporter\<close>

lemma Inc_With: "Inc (With g l) l = g(l \<mapsto> gval g l + 1)"
  by (auto simp: Inc_def With_def gval_def split: option.splits)

lemma Dec_With: "Dec (With g l) l = g(l \<mapsto> gval g l - 1)"
  by (auto simp: Dec_def With_def gval_def split: option.splits)

lemma cval_CounterAdd: "cval (CounterAdd c l v) l = fadd (cval c l) v"
  by (simp add: CounterAdd_def cval_def)



text \<open>
  C6. A traffic message for an allocation that is not in \<^verbatim>\<open>allocations\<close>: each of the
  four counters of the realm grows by the field of the sample, no histogauge method is
  called and no histogauge changes, and the allocation is entered without previous rates,
  with the clock reading as its timestamp.
\<close>

theorem traffic_new_allocation:
  assumes "parseKeyName (Channel msg) = Inr md" and "messageType md = ''traffic''"
    and "parseTrafficMetric (Payload msg) = Inr tm"
    and "allocations st (allocationName md) = None"
  shows "let labels = [''realm'' \<mapsto> realm md];
             st' = handleMessage fmt_g now later st msg
         in receivedPackets st' = (receivedPackets st)(labels \<mapsto> fadd (cval (receivedPackets st) labels) (rcvp tm))
          \<and> receivedBytes st' = (receivedBytes st)(labels \<mapsto> fadd (cval (receivedBytes st) labels) (rcvb tm))
          \<and> sentPackets st' = (sentPackets st)(labels \<mapsto> fadd (cval (sentPackets st) labels) (sentp tm))
          \<and> sentBytes st' = (sentBytes st)(labels \<mapsto> fadd (cval (sentBytes st) labels) (sentb tm))
          \<and> calls st' = calls st
          \<and> receivedPacketRateHistogauge st' = receivedPacketRateHistogauge st
          \<and> receivedByteRateHistogauge st' = receivedByteRateHistogauge st
          \<and> sentPacketRateHistogauge st' = sentPacketRateHistogauge st
          \<and> sentByteRateHistogauge st' = sentByteRateHistogauge st
          \<and> allocations st' = (allocations st)(allocationName md \<mapsto>
               \<lparr>previousRates = None, lastMetricTimestamp = now\<rparr>)
          \<and> allocationGauge st' = allocationGauge st
          \<and> stdout st' = stdout st"
  using assms by (simp add: handleMessage_def traffic_def Let_def CounterAdd_def)

theorem traffic_new_allocation_witness:
  "parseKeyName ''turn/realm/r/user/u/allocation/a/traffic'' =
     Inr \<lparr>realm = ''r'', allocationName = ''turn/realm/r/user/u/allocation/a'', messageType = ''traffic''\<rparr>
   \<and> parseTrafficMetric ''rcvp=10, rcvb=1200, sentp=9, sentb=700'' =
     Inr \<lparr>rcvp = Fin 10, rcvb = Fin 1200, sentp = Fin 9, sentb = Fin 700\<rparr>
   \<and> allocations start ''turn/realm/r/user/u/allocation/a'' = None
   \<and> receivedPackets (handleMessage fmt_g_thresholds 5 6 start
        \<lparr>Channel = ''turn/realm/r/user/u/allocation/a/traffic'',
         Payload = ''rcvp=10, rcvb=1200, sentp=9, sentb=700''\<rparr>) [''realm'' \<mapsto> ''r''] = Some (Fin 10)
   \<and> sentBytes (handleMessage fmt_g_thresholds 5 6 start
        \<lparr>Channel = ''turn/realm/r/user/u/allocation/a/traffic'',
         Payload = ''rcvp=10, rcvb=1200, sentp=9, sentb=700''\<rparr>) [''realm'' \<mapsto> ''r''] = Some (Fin 700)
   \<and> calls (handleMessage fmt_g_thresholds 5 6 start
        \<lparr>Channel = ''turn/realm/r/user/u/allocation/a/traffic'',
         Payload = ''rcvp=10, rcvb=1200, sentp=9, sentb=700''\<rparr>) = []
   \<and> allocations (handleMessage fmt_g_thresholds 5 6 start
        \<lparr>Channel = ''turn/realm/r/user/u/allocation/a/traffic'',
         Payload = ''rcvp=10, rcvb=1200, sentp=9, sentb=700''\<rparr>) ''turn/realm/r/user/u/allocation/a'' =
       Some \<lparr>previousRates = None, lastMetricTimestamp = 5\<rparr>"
proof -
  have k: "parseKeyName (Channel \<lparr>Channel = ''turn/realm/r/user/u/allocation/a/traffic'',
         Payload = ''rcvp=10, rcvb=1200, sentp=9, sentb=700''\<rparr>) =
     Inr \<lparr>realm = ''r'', allocationName = ''turn/realm/r/user/u/allocation/a'', messageType = ''traffic''\<rparr>"
    by (simp add: parseKeyName_def keyRegexp_def keyRegexp_at_def many1_def not_slash_def not_newline_def)
  have t: "messageType \<lparr>realm = ''r'', allocationName = ''turn/realm/r/user/u/allocation/a'',
       messageType = ''traffic''\<rparr> = ''traffic''"
    by simp
  have p: "parseTrafficMetric (Payload \<lparr>Channel = ''turn/realm/r/user/u/allocation/a/traffic'',
         Payload = ''rcvp=10, rcvb=1200, sentp=9, sentb=700''\<rparr>) =
     Inr \<lparr>rcvp = Fin 10, rcvb = Fin 1200, sentp = Fin 9, sentb = Fin 700\<rparr>"
    by (simp add: parseTrafficMetric_def metricRegexp_def metricRegexp_at_def many1_def is_digit_def
        ParseFloat_def)
  have a: "allocations start (allocationName \<lparr>realm = ''r'',
       allocationName = ''turn/realm/r/user/u/allocation/a'', messageType = ''traffic''\<rparr>) = None"
    by (simp add: start_def)
  show ?thesis
    using k p a traffic_new_allocation [OF k t p a, where fmt_g = fmt_g_thresholds and now = 5 and later = 6]
    by (simp add: Let_def start_def cval_def)
qed

text \<open>
  C7. A status message with the payload \<^verbatim>\<open>deleted\<close>: the allocation gauge of the realm
  goes down by one. When the allocation is in \<^verbatim>\<open>allocations\<close> with previous rates, each
  of the four histogauges gets one \<^verbatim>\<open>Remove\<close> with the stored field; the allocation is
  deleted from \<^verbatim>\<open>allocations\<close> whether it has previous rates or not. When the allocation
  is not there, no histogauge method is called and only the allocation gauge changes.
\<close>

theorem deleted_allocation:
  assumes "parseKeyName (Channel msg) = Inr md" and "messageType md = ''status''"
    and "Payload msg = ''deleted''"
  shows "let labels = [''realm'' \<mapsto> realm md];
             st' = handleMessage fmt_g now later st msg
         in allocationGauge st' = (allocationGauge st)(labels \<mapsto> gval (allocationGauge st) labels - 1)
          \<and> allocations st' = (allocations st)(allocationName md := None)
          \<and> receivedPackets st' = receivedPackets st \<and> receivedBytes st' = receivedBytes st
          \<and> sentPackets st' = sentPackets st \<and> sentBytes st' = sentBytes st
          \<and> stdout st' = stdout st
          \<and> (case allocations st (allocationName md) of
                None \<Rightarrow> st' = st\<lparr>allocationGauge := allocationGauge st'\<rparr>
              | Some a \<Rightarrow>
                 (case previousRates a of
                    None \<Rightarrow> st' = st\<lparr>allocationGauge := allocationGauge st', allocations := allocations st'\<rparr>
                  | Some p \<Rightarrow>
                      calls st' = calls st @
                        [(ReceivedPacketRate, OpRemove labels (rcvp p)), (ReceivedByteRate, OpRemove labels (rcvb p)),
                         (SentPacketRate, OpRemove labels (sentp p)), (SentByteRate, OpRemove labels (sentb p))]
                    \<and> receivedPacketRateHistogauge st' = Remove fmt_g (receivedPacketRateHistogauge st) labels (rcvp p)
                    \<and> receivedByteRateHistogauge st' = Remove fmt_g (receivedByteRateHistogauge st) labels (rcvb p)
                    \<and> sentPacketRateHistogauge st' = Remove fmt_g (sentPacketRateHistogauge st) labels (sentp p)
                    \<and> sentByteRateHistogauge st' = Remove fmt_g (sentByteRateHistogauge st) labels (sentb p)))"
proof -
  have np: "\<not> HasPrefix ''deleted'' ''new''"
    by (simp add: HasPrefix_def)
  show ?thesis
  proof (cases "allocations st (allocationName md)")
    case None
    then show ?thesis
      using assms np by (simp add: handleMessage_def deleted_def Let_def Dec_With fun_upd_idem)
  next
    case (Some a)
    then show ?thesis
      using assms np
      by (cases "previousRates a") (simp_all add: handleMessage_def deleted_def Let_def Dec_With)
  qed
qed

theorem deleted_allocation_witness:
  "parseKeyName ''turn/realm/r/user/u/allocation/a/status'' =
     Inr \<lparr>realm = ''r'', allocationName = ''turn/realm/r/user/u/allocation/a'', messageType = ''status''\<rparr>
   \<and> allocationGauge (handleMessage fmt_g_thresholds 8 9
        (start\<lparr>allocations := [''turn/realm/r/user/u/allocation/a'' \<mapsto>
           \<lparr>previousRates = Some \<lparr>rcvp = Fin 60, rcvb = Fin 800, sentp = Fin 0, sentb = Fin 2\<rparr>,
            lastMetricTimestamp = 7\<rparr>]\<rparr>)
        \<lparr>Channel = ''turn/realm/r/user/u/allocation/a/status'', Payload = ''deleted''\<rparr>)
       [''realm'' \<mapsto> ''r''] = Some (- 1)
   \<and> allocations (handleMessage fmt_g_thresholds 8 9
        (start\<lparr>allocations := [''turn/realm/r/user/u/allocation/a'' \<mapsto>
           \<lparr>previousRates = Some \<lparr>rcvp = Fin 60, rcvb = Fin 800, sentp = Fin 0, sentb = Fin 2\<rparr>,
            lastMetricTimestamp = 7\<rparr>]\<rparr>)
        \<lparr>Channel = ''turn/realm/r/user/u/allocation/a/status'', Payload = ''deleted''\<rparr>)
       ''turn/realm/r/user/u/allocation/a'' = None
   \<and> calls (handleMessage fmt_g_thresholds 8 9
        (start\<lparr>allocations := [''turn/realm/r/user/u/allocation/a'' \<mapsto>
           \<lparr>previousRates = Some \<lparr>rcvp = Fin 60, rcvb = Fin 800, sentp = Fin 0, sentb = Fin 2\<rparr>,
            lastMetricTimestamp = 7\<rparr>]\<rparr>)
        \<lparr>Channel = ''turn/realm/r/user/u/allocation/a/status'', Payload = ''deleted''\<rparr>) =
       [(ReceivedPacketRate, OpRemove [''realm'' \<mapsto> ''r''] (Fin 60)),
        (ReceivedByteRate, OpRemove [''realm'' \<mapsto> ''r''] (Fin 800)),
        (SentPacketRate, OpRemove [''realm'' \<mapsto> ''r''] (Fin 0)),
        (SentByteRate, OpRemove [''realm'' \<mapsto> ''r''] (Fin 2))]"
proof -
  have k: "parseKeyName (Channel \<lparr>Channel = ''turn/realm/r/user/u/allocation/a/status'',
         Payload = ''deleted''\<rparr>) =
     Inr \<lparr>realm = ''r'', allocationName = ''turn/realm/r/user/u/allocation/a'', messageType = ''status''\<rparr>"
    by (simp add: parseKeyName_def keyRegexp_def keyRegexp_at_def many1_def not_slash_def not_newline_def)
  have t: "messageType \<lparr>realm = ''r'', allocationName = ''turn/realm/r/user/u/allocation/a'',
       messageType = ''status''\<rparr> = ''status''"
    by simp
  have p: "Payload \<lparr>Channel = ''turn/realm/r/user/u/allocation/a/status'', Payload = ''deleted''\<rparr> = ''deleted''"
    by simp
  show ?thesis
    using k deleted_allocation [OF k t p, where fmt_g = fmt_g_thresholds and now = 8 and later = 9
        and st = "start\<lparr>allocations := [''turn/realm/r/user/u/allocation/a'' \<mapsto>
           \<lparr>previousRates = Some \<lparr>rcvp = Fin 60, rcvb = Fin 800, sentp = Fin 0, sentb = Fin 2\<rparr>,
            lastMetricTimestamp = 7\<rparr>]\<rparr>"]
    by (simp add: Let_def start_def gval_empty)
qed

text \<open>
  C8. A message whose channel name does not match the key pattern, and a traffic message
  whose payload does not match the metric pattern, print one line and leave every variable
  of the program as it was: the gauge, the counters, the histogauges and the allocations.
\<close>

theorem parse_failure_changes_nothing:
  "(parseKeyName (Channel msg) = Inl e \<longrightarrow>
      handleMessage fmt_g now later st msg =
        st\<lparr>stdout := stdout st @ [''Unexpected key name: %s '' @ Channel msg]\<rparr>)
   \<and> (parseKeyName (Channel msg) = Inr md \<and> messageType md = ''traffic''
        \<and> parseTrafficMetric (Payload msg) = Inl e' \<longrightarrow>
      handleMessage fmt_g now later st msg =
        st\<lparr>stdout := stdout st @ [''Unexpected traffic payload: %s '' @ Payload msg]\<rparr>)"
  by (simp add: handleMessage_def Let_def)

theorem parse_failure_changes_nothing_witness:
  "parseKeyName ''turn/realm/r/user/u'' = Inl Unexpected_key_name
   \<and> handleMessage fmt_g_thresholds 1 2 start \<lparr>Channel = ''turn/realm/r/user/u'', Payload = ''deleted''\<rparr> =
       start\<lparr>stdout := [''Unexpected key name: %s turn/realm/r/user/u'']\<rparr>
   \<and> parseKeyName ''turn/realm/r/user/u/allocation/a/traffic'' =
       Inr \<lparr>realm = ''r'', allocationName = ''turn/realm/r/user/u/allocation/a'', messageType = ''traffic''\<rparr>
   \<and> parseTrafficMetric ''rcvp=1, rcvb=2, sentp=x'' = Inl Unexpected_traffic_metric
   \<and> handleMessage fmt_g_thresholds 1 2 start
        \<lparr>Channel = ''turn/realm/r/user/u/allocation/a/traffic'', Payload = ''rcvp=1, rcvb=2, sentp=x''\<rparr> =
       start\<lparr>stdout := [''Unexpected traffic payload: %s rcvp=1, rcvb=2, sentp=x'']\<rparr>"
proof -
  have k1: "parseKeyName (Channel \<lparr>Channel = ''turn/realm/r/user/u'', Payload = ''deleted''\<rparr>) =
      Inl Unexpected_key_name"
    by (simp add: parseKeyName_def keyRegexp_def keyRegexp_at_def many1_def not_slash_def not_newline_def)
  have k2: "parseKeyName (Channel \<lparr>Channel = ''turn/realm/r/user/u/allocation/a/traffic'',
        Payload = ''rcvp=1, rcvb=2, sentp=x''\<rparr>) =
      Inr \<lparr>realm = ''r'', allocationName = ''turn/realm/r/user/u/allocation/a'', messageType = ''traffic''\<rparr>"
    by (simp add: parseKeyName_def keyRegexp_def keyRegexp_at_def many1_def not_slash_def not_newline_def)
  have p2: "parseTrafficMetric (Payload \<lparr>Channel = ''turn/realm/r/user/u/allocation/a/traffic'',
        Payload = ''rcvp=1, rcvb=2, sentp=x''\<rparr>) = Inl Unexpected_traffic_metric"
    by (simp add: parseTrafficMetric_def metricRegexp_def metricRegexp_at_def many1_def is_digit_def)
  from k1 k2 p2
    parse_failure_changes_nothing [where msg = "\<lparr>Channel = ''turn/realm/r/user/u'', Payload = ''deleted''\<rparr>"
      and e = Unexpected_key_name and fmt_g = fmt_g_thresholds and now = 1 and later = 2 and st = start]
    parse_failure_changes_nothing [where msg = "\<lparr>Channel = ''turn/realm/r/user/u/allocation/a/traffic'',
        Payload = ''rcvp=1, rcvb=2, sentp=x''\<rparr>"
      and md = "\<lparr>realm = ''r'', allocationName = ''turn/realm/r/user/u/allocation/a'', messageType = ''traffic''\<rparr>"
      and e' = Unexpected_traffic_metric and fmt_g = fmt_g_thresholds and now = 1 and later = 2 and st = start]
  show ?thesis by (simp add: start_def)
qed

text \<open>
  C9. A status message adds one to the allocation gauge of the realm exactly when its
  payload starts with \<^verbatim>\<open>new\<close>, whatever follows; it is handled as a deletion exactly when
  its payload is \<^verbatim>\<open>deleted\<close>; with any other payload the state stays as it was.
\<close>

theorem status_message:
  assumes "parseKeyName (Channel msg) = Inr md" and "messageType md = ''status''"
  shows "let labels = [''realm'' \<mapsto> realm md];
             st' = handleMessage fmt_g now later st msg
         in (HasPrefix (Payload msg) ''new'' \<longrightarrow>
               st' = st\<lparr>allocationGauge := (allocationGauge st)(labels \<mapsto> gval (allocationGauge st) labels + 1)\<rparr>)
          \<and> (Payload msg = ''deleted'' \<longrightarrow> st' = deleted fmt_g md labels st)
          \<and> (\<not> HasPrefix (Payload msg) ''new'' \<and> Payload msg \<noteq> ''deleted'' \<longrightarrow> st' = st)
          \<and> (gval (allocationGauge st') labels = gval (allocationGauge st) labels + 1
                \<longleftrightarrow> HasPrefix (Payload msg) ''new'')
          \<and> (gval (allocationGauge st') labels = gval (allocationGauge st) labels - 1
                \<longleftrightarrow> Payload msg = ''deleted'')"
proof -
  have np: "\<not> HasPrefix ''deleted'' ''new''"
    by (simp add: HasPrefix_def)
  have g: "allocationGauge (deleted fmt_g md l st) = (allocationGauge st)(l \<mapsto> gval (allocationGauge st) l - 1)" for l
    by (simp add: deleted_def Let_def Dec_With split: option.splits)
  show ?thesis
    using assms np
    by (auto simp: handleMessage_def Let_def Inc_With g gval_def [of "(allocationGauge st)(l \<mapsto> x)" for l x])
qed

theorem status_message_witness:
  "parseKeyName ''turn/realm/r/user/u/allocation/a/status'' =
     Inr \<lparr>realm = ''r'', allocationName = ''turn/realm/r/user/u/allocation/a'', messageType = ''status''\<rparr>
   \<and> HasPrefix ''new lifetime=600'' ''new''
   \<and> handleMessage fmt_g_thresholds 1 2 start
        \<lparr>Channel = ''turn/realm/r/user/u/allocation/a/status'', Payload = ''new lifetime=600''\<rparr> =
       start\<lparr>allocationGauge := [[''realm'' \<mapsto> ''r''] \<mapsto> 1]\<rparr>
   \<and> \<not> HasPrefix ''refreshed'' ''new''
   \<and> handleMessage fmt_g_thresholds 1 2 start
        \<lparr>Channel = ''turn/realm/r/user/u/allocation/a/status'', Payload = ''refreshed''\<rparr> = start"
proof -
  have k1: "parseKeyName (Channel \<lparr>Channel = ''turn/realm/r/user/u/allocation/a/status'',
         Payload = ''new lifetime=600''\<rparr>) =
     Inr \<lparr>realm = ''r'', allocationName = ''turn/realm/r/user/u/allocation/a'', messageType = ''status''\<rparr>"
    by (simp add: parseKeyName_def keyRegexp_def keyRegexp_at_def many1_def not_slash_def not_newline_def)
  have k2: "parseKeyName (Channel \<lparr>Channel = ''turn/realm/r/user/u/allocation/a/status'',
         Payload = ''refreshed''\<rparr>) =
     Inr \<lparr>realm = ''r'', allocationName = ''turn/realm/r/user/u/allocation/a'', messageType = ''status''\<rparr>"
    by (simp add: parseKeyName_def keyRegexp_def keyRegexp_at_def many1_def not_slash_def not_newline_def)
  have t: "messageType \<lparr>realm = ''r'', allocationName = ''turn/realm/r/user/u/allocation/a'',
       messageType = ''status''\<rparr> = ''status''"
    by simp
  from k1
    status_message [OF k1 t, where fmt_g = fmt_g_thresholds and now = 1 and later = 2 and st = start]
    status_message [OF k2 t, where fmt_g = fmt_g_thresholds and now = 1 and later = 2 and st = start]
  show ?thesis
    by (simp add: Let_def HasPrefix_def start_def gval_empty)
qed

section \<open>The exporter on an example\<close>

text \<open>
  \<^verbatim>\<open>Counter.Add\<close> never sees a negative number: the parsed fields are not negative.
\<close>

lemma ParseFloat_nonneg: "fle (Fin 0) (ParseFloat s)"
  by (simp add: ParseFloat_def)

lemma parseTrafficMetric_nonneg:
  assumes "parseTrafficMetric data = Inr tm"
  shows "fle (Fin 0) (rcvp tm) \<and> fle (Fin 0) (rcvb tm) \<and> fle (Fin 0) (sentp tm) \<and> fle (Fin 0) (sentb tm)"
  using assms by (auto simp: parseTrafficMetric_def ParseFloat_nonneg split: option.splits)

text \<open>The thresholds of the exporter are well named under \<^verbatim>\<open>%g\<close>.\<close>

lemma packetRateBuckets_well_named: "well_named fmt_g_thresholds packetRateBuckets"
  by (simp add: well_named_def packetRateBuckets_def bucketName_def fmt_g_thresholds_def)

lemma byteRateBuckets_well_named: "well_named fmt_g_thresholds byteRateBuckets"
  by (simp add: well_named_def byteRateBuckets_def bucketName_def fmt_g_thresholds_def)

text \<open>
  One allocation of realm \<open>r\<close>: a first sample, then 600 packets in 10 seconds (60 per
  second: counted under 100 and above, not under 50), then 400 packets in 10 seconds (40
  per second: now also counted under 50), then its deletion, after which the series are
  back at 0.
\<close>

lemma parseKeyName_traffic_example: "parseKeyName ''turn/realm/r/user/u/allocation/a/traffic'' =
     Inr \<lparr>realm = ''r'', allocationName = ''turn/realm/r/user/u/allocation/a'', messageType = ''traffic''\<rparr>"
  by (simp add: parseKeyName_def keyRegexp_def keyRegexp_at_def many1_def not_slash_def not_newline_def)

lemma parseKeyName_status_example: "parseKeyName ''turn/realm/r/user/u/allocation/a/status'' =
     Inr \<lparr>realm = ''r'', allocationName = ''turn/realm/r/user/u/allocation/a'', messageType = ''status''\<rparr>"
  by (simp add: parseKeyName_def keyRegexp_def keyRegexp_at_def many1_def not_slash_def not_newline_def)

lemma parseTrafficMetric_examples:
  "parseTrafficMetric ''rcvp=10, rcvb=0, sentp=0, sentb=0'' = Inr \<lparr>rcvp = Fin 10, rcvb = Fin 0, sentp = Fin 0, sentb = Fin 0\<rparr>"
  "parseTrafficMetric ''rcvp=600, rcvb=0, sentp=0, sentb=0'' = Inr \<lparr>rcvp = Fin 600, rcvb = Fin 0, sentp = Fin 0, sentb = Fin 0\<rparr>"
  "parseTrafficMetric ''rcvp=400, rcvb=0, sentp=0, sentb=0'' = Inr \<lparr>rcvp = Fin 400, rcvb = Fin 0, sentp = Fin 0, sentb = Fin 0\<rparr>"
  by (simp_all add: parseTrafficMetric_def metricRegexp_def metricRegexp_at_def many1_def is_digit_def
        ParseFloat_def)

lemma Seconds_examples: "Seconds (Sub 10000000000 0) = Fin 10" "Seconds (Sub 20000000000 10000000000) = Fin 10"
  by (simp_all add: Seconds_def Sub_def quo_def rem_def Second_def)

lemma scenario_traffic:
  "map (gaugeVec (receivedPacketRateHistogauge (watchTraffic fmt_g_thresholds start
     [(\<lparr>Channel = ''turn/realm/r/user/u/allocation/a/traffic'', Payload = ''rcvp=10, rcvb=0, sentp=0, sentb=0''\<rparr>, 0, 0),
      (\<lparr>Channel = ''turn/realm/r/user/u/allocation/a/traffic'', Payload = ''rcvp=600, rcvb=0, sentp=0, sentb=0''\<rparr>, 10000000000, 10000000000),
      (\<lparr>Channel = ''turn/realm/r/user/u/allocation/a/traffic'', Payload = ''rcvp=400, rcvb=0, sentp=0, sentb=0''\<rparr>, 20000000000, 20000000000)])))
     [setLe [''realm'' \<mapsto> ''r''] ''50'', setLe [''realm'' \<mapsto> ''r''] ''100'', setLe [''realm'' \<mapsto> ''r''] ''+Inf'']
   = [Some 1, Some 1, Some 1]"
  by (simp add: handleMessage_def traffic_def Let_def parseKeyName_traffic_example parseTrafficMetric_examples Seconds_examples start_def
      Add_apply Replace_apply Add_gval Replace_gval NewHistogauge_def packetRateBuckets_def bucketName_def
      fmt_g_thresholds_def gval_empty moved_def fgt_def)

lemma scenario_deleted:
  "map (gaugeVec (receivedPacketRateHistogauge (watchTraffic fmt_g_thresholds start
     [(\<lparr>Channel = ''turn/realm/r/user/u/allocation/a/traffic'', Payload = ''rcvp=10, rcvb=0, sentp=0, sentb=0''\<rparr>, 0, 0),
      (\<lparr>Channel = ''turn/realm/r/user/u/allocation/a/traffic'', Payload = ''rcvp=600, rcvb=0, sentp=0, sentb=0''\<rparr>, 10000000000, 10000000000),
      (\<lparr>Channel = ''turn/realm/r/user/u/allocation/a/traffic'', Payload = ''rcvp=400, rcvb=0, sentp=0, sentb=0''\<rparr>, 20000000000, 20000000000),
      (\<lparr>Channel = ''turn/realm/r/user/u/allocation/a/status'', Payload = ''deleted''\<rparr>, 0, 0)])))
     [setLe [''realm'' \<mapsto> ''r''] ''50'', setLe [''realm'' \<mapsto> ''r''] ''100'', setLe [''realm'' \<mapsto> ''r''] ''+Inf'']
   = [Some 0, Some 0, Some 0]"
  by (simp add: handleMessage_def traffic_def deleted_def Let_def parseKeyName_traffic_example parseKeyName_status_example parseTrafficMetric_examples Seconds_examples start_def HasPrefix_def
      Add_apply Replace_apply Remove_apply Add_gval Replace_gval Remove_gval NewHistogauge_def
      packetRateBuckets_def bucketName_def fmt_g_thresholds_def gval_empty moved_def fgt_def)

end
